theory Spec2Isabelle
  imports Complex_Main "HOL-Library.Sublist"
begin

section \<open>medi-findr: the price aggregation route\<close>

text \<open>
  A shallow embedding of \<^verbatim>\<open>src/app/api/prices/route.ts\<close>: the rate limiter, the provider
  cache, the provider row builders and the request handler \<^verbatim>\<open>GET\<close>.

  Conventions of the embedding.
  \<^item> The two process-wide maps (\<^verbatim>\<open>g.__medi_rl\<close>, \<^verbatim>\<open>g.__medi_cache\<close>) are passed in and
    returned updated.
  \<^item> Every reading of \<^verbatim>\<open>Date.now()\<close> is an argument of the function that reads it; the
    handler takes its readings from a record of the outside world.
  \<^item> A thrown exception or a rejected promise is the \<open>Inl\<close> of a sum type.
  \<^item> Configuration constants read from the environment (\<^verbatim>\<open>RATE_MAX\<close>, the TTLs, ...) are
    arguments; times, counts and TTLs are integers.
\<close>

subsection \<open>Errors\<close>

datatype js_error =
    ReferenceError string   \<comment> \<open>an identifier that is bound in no enclosing scope\<close>
  | TypeError               \<comment> \<open>a method call on a value that has no such method\<close>
  | SyntaxError             \<comment> \<open>\<^verbatim>\<open>res.json()\<close> on a body that is not JSON\<close>
  | FetchError              \<comment> \<open>\<^verbatim>\<open>fetch\<close> rejects: network failure or the timeout's abort\<close>
  | FileError               \<comment> \<open>\<^verbatim>\<open>fs.readFile\<close> or \<^verbatim>\<open>XLSX.read\<close> throws\<close>

subsection \<open>Rate limiter (lines 76-87)\<close>

record RateRecord =
  count :: int
  resetAt :: int

record RateResult =
  allowed :: bool
  remaining :: int
  resetAtOut :: int

type_synonym rl_map = "string \<rightharpoonup> RateRecord"

text \<open>
  \<^verbatim>\<open>rateLimit(key, max, windowMs)\<close>; \<open>now\<close> is the value of \<^verbatim>\<open>Date.now()\<close> and \<open>rl\<close> the map
  \<^verbatim>\<open>g.__medi_rl\<close>. The statement \<^verbatim>\<open>rec.count += 1\<close> mutates the record stored in the map.
\<close>

definition rateLimit :: "rl_map \<Rightarrow> int \<Rightarrow> string \<Rightarrow> int \<Rightarrow> int \<Rightarrow> RateResult \<times> rl_map" where
  "rateLimit rl now key mx windowMs =
     (let fresh = (\<lparr>allowed = True, remaining = mx - 1, resetAtOut = now + windowMs\<rparr>,
                   rl(key \<mapsto> \<lparr>count = 1, resetAt = now + windowMs\<rparr>))
      in case rl key of
           None \<Rightarrow> fresh
         | Some rec \<Rightarrow>
             if now \<ge> resetAt rec then fresh
             else if count rec \<ge> mx
               then (\<lparr>allowed = False, remaining = 0, resetAtOut = resetAt rec\<rparr>, rl)
             else (\<lparr>allowed = True, remaining = mx - (count rec + 1), resetAtOut = resetAt rec\<rparr>,
                   rl(key \<mapsto> rec\<lparr>count := count rec + 1\<rparr>)))"

text \<open>A client's successive calls for one key, at the given clock readings.\<close>

fun rateLimit_calls :: "rl_map \<Rightarrow> string \<Rightarrow> int \<Rightarrow> int \<Rightarrow> int list \<Rightarrow> RateResult list \<times> rl_map" where
  "rateLimit_calls rl key mx windowMs [] = ([], rl)"
| "rateLimit_calls rl key mx windowMs (now # nows) =
     (case rateLimit rl now key mx windowMs of
        (r, rl') \<Rightarrow> (case rateLimit_calls rl' key mx windowMs nows of
                       (rs, rl'') \<Rightarrow> (r # rs, rl'')))"

text \<open>The condition under which a call opens a fresh window.\<close>

definition window_over :: "rl_map \<Rightarrow> string \<Rightarrow> int \<Rightarrow> bool" where
  "window_over rl key now = (case rl key of None \<Rightarrow> True | Some rec \<Rightarrow> now \<ge> resetAt rec)"

subsection \<open>Provider cache (lines 26-35 and 94-105)\<close>

record 'd CacheEntry =
  expires :: int
  data :: 'd

type_synonym ('u, 'd) Bucket = "'u \<rightharpoonup> 'd CacheEntry"
type_synonym ('u, 'd) cache = "string \<rightharpoonup> ('u, 'd) Bucket"

text \<open>
  What one upstream request yields: \<^verbatim>\<open>fetchWithTimeout\<close> rejects, the response is not
  \<^verbatim>\<open>ok\<close>, its body is not JSON, or the body parses to a value.
\<close>

datatype 'd http_result = Rejects | NotOk | BadBody | Body 'd

text \<open>\<^verbatim>\<open>bucket(name)\<close>: creates the bucket when it is missing.\<close>

definition bucket :: "('u, 'd) cache \<Rightarrow> string \<Rightarrow> ('u, 'd) Bucket \<times> ('u, 'd) cache" where
  "bucket c name =
     (case c name of
        None \<Rightarrow> (Map.empty, c(name \<mapsto> Map.empty))
      | Some b \<Rightarrow> (b, c))"

text \<open>\<^verbatim>\<open>bucket(bucketName).set(url, entry)\<close>.\<close>

definition bucket_set :: "('u, 'd) cache \<Rightarrow> string \<Rightarrow> 'u \<Rightarrow> 'd CacheEntry \<Rightarrow> ('u, 'd) cache" where
  "bucket_set c name url e = (case bucket c name of (b, c') \<Rightarrow> c'(name \<mapsto> b(url \<mapsto> e)))"

text \<open>The entry stored for a bucket and key, if any (an observation, not source code).\<close>

definition entry_of :: "('u, 'd) cache \<Rightarrow> string \<Rightarrow> 'u \<Rightarrow> 'd CacheEntry option" where
  "entry_of c name url = (case c name of None \<Rightarrow> None | Some b \<Rightarrow> b url)"

text \<open>
  \<^verbatim>\<open>fetchJSONCached(url, init, ttlMs, bucketName)\<close>. \<open>up\<close> answers upstream requests;
  \<open>now\<close> is the clock reading of line 98 and \<open>now'\<close> that of line 103. The result is the
  returned value (\<open>None\<close> for \<^verbatim>\<open>null\<close>), the cache, and the list of upstream requests made.
\<close>

text \<open>Lines 100-104: the upstream request and the store.\<close>

definition fetch_upstream ::
  "('u \<Rightarrow> 'd http_result) \<Rightarrow> int \<Rightarrow> ('u, 'd) cache \<Rightarrow> 'u \<Rightarrow> int \<Rightarrow> string
     \<Rightarrow> (js_error + 'd option) \<times> ('u, 'd) cache \<times> 'u list" where
  "fetch_upstream up now' c url ttlMs bucketName =
     (case up url of
        Rejects \<Rightarrow> (Inl FetchError, c, [url])
      | NotOk \<Rightarrow> (Inr None, c, [url])
      | BadBody \<Rightarrow> (Inl SyntaxError, c, [url])
      | Body d \<Rightarrow>
          (Inr (Some d),
           (if ttlMs > 0
            then bucket_set c bucketName url \<lparr>expires = now' + ttlMs, data = d\<rparr>
            else c),
           [url]))"

definition fetchJSONCached ::
  "('u \<Rightarrow> 'd http_result) \<Rightarrow> int \<Rightarrow> int \<Rightarrow> ('u, 'd) cache \<Rightarrow> 'u \<Rightarrow> int \<Rightarrow> string
     \<Rightarrow> (js_error + 'd option) \<times> ('u, 'd) cache \<times> 'u list" where
  "fetchJSONCached up now now' c url ttlMs bucketName =
     (if ttlMs > 0
      then (case bucket c bucketName of
              (b, c1) \<Rightarrow>
                (case b url of
                   Some hit \<Rightarrow>
                     if expires hit > now then (Inr (Some (data hit)), c1, [])
                     else fetch_upstream up now' c1 url ttlMs bucketName
                 | None \<Rightarrow> fetch_upstream up now' c1 url ttlMs bucketName))
      else fetch_upstream up now' c url ttlMs bucketName)"

text \<open>The lookup of lines 95-99 misses: caching is off, or no entry, or a stale one.\<close>

definition cache_miss :: "('u, 'd) cache \<Rightarrow> string \<Rightarrow> 'u \<Rightarrow> int \<Rightarrow> int \<Rightarrow> bool" where
  "cache_miss c b url ttlMs now =
     (ttlMs \<le> 0 \<or> (case entry_of c b url of None \<Rightarrow> True | Some e \<Rightarrow> expires e \<le> now))"

subsection \<open>Numbers\<close>

text \<open>
  A JavaScript number is a finite value, \<^verbatim>\<open>NaN\<close>, or one of the two infinities. A finite
  double is read as the rational it denotes and arithmetic on finite values is exact: the
  rounding of IEEE arithmetic, overflow and the sign of zero are not modelled. Numeric
  values that reach the code as text (query parameters, JSON fields, spreadsheet cells)
  are given as the number that \<^verbatim>\<open>Number(...)\<close> makes of them.

  On doubles the comparisons, \<^verbatim>\<open>Math.min\<close>, \<^verbatim>\<open>Math.max\<close>, the sign of a difference and the
  way \<^verbatim>\<open>NaN\<close> spreads are those of the code. A product, a quotient and the value of
  \<^verbatim>\<open>toFixed\<close> are the exact ones, where the code has the nearest double (or an infinity
  on overflow). The statements below that hold for all inputs rest on the former only;
  the prices worked out on the concrete inputs below (0.01234 a unit, 6.50 for 60 and
  12.50 for 30, each at 30 units) round to the same four decimals in either arithmetic.
\<close>

datatype jsnum = Fin rat | NaN | PosInf | NegInf

fun isFinite :: "jsnum \<Rightarrow> bool" where
  "isFinite (Fin _) = True"
| "isFinite _ = False"

text \<open>The operators \<^verbatim>\<open><\<close> and \<^verbatim>\<open><=\<close>: false whenever an operand is \<^verbatim>\<open>NaN\<close>.\<close>

fun js_lt :: "jsnum \<Rightarrow> jsnum \<Rightarrow> bool" where
  "js_lt NaN _ = False"
| "js_lt _ NaN = False"
| "js_lt (Fin a) (Fin b) = (a < b)"
| "js_lt PosInf _ = False"
| "js_lt _ NegInf = False"
| "js_lt NegInf _ = True"
| "js_lt _ PosInf = True"

fun js_le :: "jsnum \<Rightarrow> jsnum \<Rightarrow> bool" where
  "js_le NaN _ = False"
| "js_le _ NaN = False"
| "js_le (Fin a) (Fin b) = (a \<le> b)"
| "js_le NegInf _ = True"
| "js_le _ PosInf = True"
| "js_le _ _ = False"

fun js_mul :: "jsnum \<Rightarrow> jsnum \<Rightarrow> jsnum" where
  "js_mul NaN _ = NaN"
| "js_mul _ NaN = NaN"
| "js_mul (Fin a) (Fin b) = Fin (a * b)"
| "js_mul (Fin a) PosInf = (if a = 0 then NaN else if 0 < a then PosInf else NegInf)"
| "js_mul (Fin a) NegInf = (if a = 0 then NaN else if 0 < a then NegInf else PosInf)"
| "js_mul PosInf (Fin b) = (if b = 0 then NaN else if 0 < b then PosInf else NegInf)"
| "js_mul NegInf (Fin b) = (if b = 0 then NaN else if 0 < b then NegInf else PosInf)"
| "js_mul PosInf PosInf = PosInf"
| "js_mul PosInf NegInf = NegInf"
| "js_mul NegInf PosInf = NegInf"
| "js_mul NegInf NegInf = PosInf"

fun js_div :: "jsnum \<Rightarrow> jsnum \<Rightarrow> jsnum" where
  "js_div NaN _ = NaN"
| "js_div _ NaN = NaN"
| "js_div (Fin a) (Fin b) =
     (if b = 0 then (if a = 0 then NaN else if 0 < a then PosInf else NegInf) else Fin (a / b))"
| "js_div (Fin a) _ = Fin 0"
| "js_div PosInf (Fin b) = (if 0 \<le> b then PosInf else NegInf)"
| "js_div NegInf (Fin b) = (if 0 \<le> b then NegInf else PosInf)"
| "js_div _ _ = NaN"

fun js_sub :: "jsnum \<Rightarrow> jsnum \<Rightarrow> jsnum" where
  "js_sub NaN _ = NaN"
| "js_sub _ NaN = NaN"
| "js_sub (Fin a) (Fin b) = Fin (a - b)"
| "js_sub (Fin a) PosInf = NegInf"
| "js_sub (Fin a) NegInf = PosInf"
| "js_sub PosInf PosInf = NaN"
| "js_sub PosInf _ = PosInf"
| "js_sub NegInf NegInf = NaN"
| "js_sub NegInf _ = NegInf"

text \<open>\<^verbatim>\<open>Math.max\<close> and \<^verbatim>\<open>Math.min\<close> of two arguments.\<close>

definition Math_max :: "jsnum \<Rightarrow> jsnum \<Rightarrow> jsnum" where
  "Math_max a b = (if a = NaN \<or> b = NaN then NaN else if js_lt a b then b else a)"

definition Math_min :: "jsnum \<Rightarrow> jsnum \<Rightarrow> jsnum" where
  "Math_min a b = (if a = NaN \<or> b = NaN then NaN else if js_lt b a then b else a)"

text \<open>
  \<^verbatim>\<open>Number(x.toFixed(4))\<close>. \<^verbatim>\<open>toFixed\<close> works on the absolute value, picks the integer
  \<open>n\<close> with \<open>n / 10\<^sup>4\<close> nearest to it (the larger one on a tie) and prints the sign in
  front; from \<open>10\<^sup>2\<^sup>1\<close> on it prints the number itself, as it does for \<^verbatim>\<open>NaN\<close> and
  the infinities.
\<close>

fun toFixed4 :: "jsnum \<Rightarrow> jsnum" where
  "toFixed4 (Fin q) =
     (if \<bar>q\<bar> \<ge> 10 ^ 21 then Fin q
      else Fin ((if q < 0 then - 1 else 1) * rat_of_int \<lfloor>\<bar>q\<bar> * 10000 + 1 / 2\<rfloor> / 10000))"
| "toFixed4 v = v"

text \<open>\<^verbatim>\<open>toNumberSafe(n, def = 0)\<close>, on the number \<^verbatim>\<open>Number(n)\<close>.\<close>

definition toNumberSafe :: "jsnum \<Rightarrow> jsnum" where
  "toNumberSafe x = (if isFinite x then x else Fin 0)"

text \<open>Truthiness of a number, as \<^verbatim>\<open>||\<close> tests it.\<close>

definition truthy_num :: "jsnum \<Rightarrow> bool" where
  "truthy_num v = (v \<noteq> NaN \<and> v \<noteq> Fin 0)"

text \<open>
  \<^verbatim>\<open>xs.slice(0, end)\<close>: \<^verbatim>\<open>end\<close> goes through \<^verbatim>\<open>ToIntegerOrInfinity\<close> (\<^verbatim>\<open>NaN\<close> is 0, a
  fraction is truncated towards zero) and a negative end counts from the back.
\<close>

definition slice0 :: "'a list \<Rightarrow> jsnum \<Rightarrow> 'a list" where
  "slice0 xs e =
     (case e of
        NaN \<Rightarrow> []
      | PosInf \<Rightarrow> xs
      | NegInf \<Rightarrow> []
      | Fin q \<Rightarrow>
          (let k = (if 0 \<le> q then \<lfloor>q\<rfloor> else \<lceil>q\<rceil>)
           in if k < 0 then take (nat (int (length xs) + k)) xs else take (nat k) xs))"

text \<open>
  The clamps of lines 374-375, \<^verbatim>\<open>Math.min(Math.max(Number(p || d), lo), hi)\<close>: the query
  parameter is \<open>None\<close> when missing or empty, else the number that \<^verbatim>\<open>Number\<close> makes of it.
\<close>

definition clamp_param :: "jsnum option \<Rightarrow> rat \<Rightarrow> rat \<Rightarrow> rat \<Rightarrow> jsnum" where
  "clamp_param p d lo hi =
     Math_min (Math_max (case p of None \<Rightarrow> Fin d | Some v \<Rightarrow> v) (Fin lo)) (Fin hi)"

subsection \<open>Strings\<close>

text \<open>
  A text is a \<^typ>\<open>string\<close>, a list of 8-bit characters: the JavaScript strings whose code
  units lie between \<^verbatim>\<open>U+0000\<close> and \<^verbatim>\<open>U+00FF\<close>. Three built-ins that the code calls are
  not defined here but taken as given, in a record of the platform:
  \<^verbatim>\<open>String.prototype.trim\<close> and \<^verbatim>\<open>String.prototype.toLowerCase\<close>, whose results rest on
  the Unicode tables, and \<^verbatim>\<open>Number\<close> on a text. Every function below that calls one of
  them takes the platform as its first argument (or finds it in the world), and every
  statement about such a function holds for any platform.
\<close>

record platform =
  trim :: "string \<Rightarrow> string"
  toLowerCase :: "string \<Rightarrow> string"
  Number_of :: "string \<Rightarrow> jsnum"

definition is_digit :: "char \<Rightarrow> bool" where
  "is_digit c = (let n = (of_char c :: nat) in 48 \<le> n \<and> n \<le> 57)"

text \<open>The class \<^verbatim>\<open>\w\<close> of a regular expression: letters, digits and the underscore.\<close>

definition is_word_char :: "char \<Rightarrow> bool" where
  "is_word_char c =
     (let n = (of_char c :: nat)
      in (48 \<le> n \<and> n \<le> 57) \<or> (65 \<le> n \<and> n \<le> 90) \<or> (97 \<le> n \<and> n \<le> 122) \<or> n = 95)"

text \<open>\<^verbatim>\<open>s.includes(t)\<close> on strings.\<close>

fun includes_str :: "string \<Rightarrow> string \<Rightarrow> bool" where
  "includes_str [] t = (t = [])"
| "includes_str (c # cs) t = (prefix t (c # cs) \<or> includes_str cs t)"

text \<open>A string option is truthy when it is present and not empty.\<close>

fun truthy :: "string option \<Rightarrow> bool" where
  "truthy None = False"
| "truthy (Some s) = (s \<noteq> [])"

text \<open>\<^verbatim>\<open>a || b\<close> on optional strings, and \<^verbatim>\<open>a || undefined\<close>.\<close>

definition or_else :: "string option \<Rightarrow> string option \<Rightarrow> string option" where
  "or_else a b = (if truthy a then a else b)"

definition or_undefined :: "string option \<Rightarrow> string option" where
  "or_undefined a = (if truthy a then a else None)"

text \<open>\<^verbatim>\<open>a || d\<close> with a string literal as the default.\<close>

definition or_str :: "string option \<Rightarrow> string \<Rightarrow> string" where
  "or_str a d = (case a of None \<Rightarrow> d | Some s \<Rightarrow> if s = [] then d else s)"

text \<open>\<^verbatim>\<open>isFiveDigitZip\<close> (line 69): \<^verbatim>\<open>!!v && /^\d{5}$/.test(v)\<close>.\<close>

definition isFiveDigitZip :: "string \<Rightarrow> bool" where
  "isFiveDigitZip v = (v \<noteq> [] \<and> length v = 5 \<and> list_all is_digit v)"

text \<open>
  \<^verbatim>\<open>/\bw\b/.test(s)\<close> for a word \<open>w\<close> of letters: \<open>w\<close> occurs in \<open>s\<close> with no word
  character right before it and none right after it.
\<close>

definition word_at :: "string \<Rightarrow> string \<Rightarrow> bool" where
  "word_at w s =
     (prefix w s \<and> (case drop (length w) s of [] \<Rightarrow> True | c # _ \<Rightarrow> \<not> is_word_char c))"

fun has_word_from :: "bool \<Rightarrow> string \<Rightarrow> string \<Rightarrow> bool" where
  "has_word_from prev w [] = False"
| "has_word_from prev w (c # cs) =
     ((\<not> prev \<and> word_at w (c # cs)) \<or> has_word_from (is_word_char c) w cs)"

definition has_word :: "string \<Rightarrow> string \<Rightarrow> bool" where
  "has_word w s = has_word_from False w s"

text \<open>\<^verbatim>\<open>deriveChain\<close> (lines 106-116).\<close>

definition deriveChain :: "platform \<Rightarrow> string option \<Rightarrow> string option" where
  "deriveChain pf name =
     (if \<not> truthy name then None
      else let n = toLowerCase pf (the name)
           in if has_word ''walmart'' n then Some ''walmart''
              else if has_word ''cvs'' n then Some ''cvs''
              else if has_word ''walgreens'' n then Some ''walgreens''
              else if has_word ''costco'' n then Some ''costco''
              else if has_word ''safeway'' n then Some ''safeway''
              else if has_word ''kroger'' n then Some ''kroger''
              else Some (trim pf n))"

subsection \<open>Rows and upstream payloads\<close>

text \<open>
  Request URLs are kept symbolic: one constructor for each URL the code builds, with the
  values that go into it. (The text of a URL is made by \<^verbatim>\<open>encodeURIComponent\<close> and
  \<^verbatim>\<open>URLSearchParams\<close>; only its use as cache key and as provenance matters here.)
\<close>

datatype url =
    RxFindUrl string nat                          \<comment> \<open>\<^verbatim>\<open>RXNAV_FIND(name, search)\<close>\<close>
  | RxNdcsUrl string                              \<comment> \<open>\<^verbatim>\<open>RXNAV_NDCS(rxcui)\<close>\<close>
  | RxNameUrl string                              \<comment> \<open>\<^verbatim>\<open>.../REST/rxcui/{rxcui}.json\<close>\<close>
  | NadacUrl string jsnum                         \<comment> \<open>drug query and \<^verbatim>\<open>$limit\<close>\<close>
  | GoodRxUrl string jsnum "string option" jsnum  \<comment> \<open>name, quantity, zip, limit\<close>
  | GoodRxBase                                    \<comment> \<open>\<^verbatim>\<open>GOODRX_BASE\<close>\<close>
  | FloridaUrl string string string               \<comment> \<open>template, drug, county\<close>
  | Literal string                                \<comment> \<open>a path or URL written out\<close>

text \<open>\<^verbatim>\<open>PriceRow\<close> (lines 40-61); \<open>None\<close> stands for \<^verbatim>\<open>undefined\<close> and for \<^verbatim>\<open>null\<close>.\<close>

record PriceRow =
  drug :: string
  form :: "string option"
  strength :: "string option"
  qty :: jsnum
  totalPrice :: jsnum
  unitPrice :: jsnum
  pricingUnit :: "string option"
  packageSize :: "string option"
  pharmacy :: "string option"
  ndc :: "string option"
  zip_field :: "string option"
  chain_field :: "string option"
  address :: "string option"
  city :: "string option"
  state_field :: "string option"
  source :: url
  dataset :: string
  effectiveDate :: "string option"
  lastUpdated :: "string option"
  notes_field :: "string option"

text \<open>A row with every optional field undefined; the builders below fill it in.\<close>

definition blank_row :: "string \<Rightarrow> jsnum \<Rightarrow> jsnum \<Rightarrow> jsnum \<Rightarrow> url \<Rightarrow> string \<Rightarrow> PriceRow" where
  "blank_row d q totalP unitP src ds =
     \<lparr>drug = d, form = None, strength = None, qty = q, totalPrice = totalP, unitPrice = unitP,
      pricingUnit = None, packageSize = None, pharmacy = None, ndc = None, zip_field = None,
      chain_field = None, address = None, city = None, state_field = None, source = src,
      dataset = ds, effectiveDate = None, lastUpdated = None, notes_field = None\<rparr>"

text \<open>
  A response body is modelled by the fields that the code reads from it; a numeric field
  is the number \<^verbatim>\<open>Number\<close> makes of it, a text field is a string when it is there, and
  \<open>None\<close> is a missing (nullish) field.
\<close>

record NadacItem =
  n_ndc :: "string option"
  n_generic_name :: "string option"
  n_nadac_per_unit :: jsnum
  n_pricing_unit :: "string option"
  n_package_size :: "string option"
  n_effective_date :: "string option"

record GoodRxItem =
  g_price_per_unit :: "jsnum option"
  g_unit_price :: "jsnum option"
  g_price :: "jsnum option"
  g_total_price :: "jsnum option"
  g_pharmacy_name :: "string option"
  g_pharmacy :: "string option"
  g_generic_name :: "string option"
  g_name :: "string option"
  g_form :: "string option"
  g_strength :: "string option"
  g_pricing_unit :: "string option"
  g_package_size :: "string option"
  g_ndc :: "string option"
  g_effective_date :: "string option"
  g_updated_at :: "string option"

text \<open>
  The field \<^verbatim>\<open>rxnormdata.idGroup.name\<close>: missing, a string, or a truthy value that is not
  a string (on which \<^verbatim>\<open>toLowerCase\<close> is not defined).
\<close>

datatype name_field = NameAbsent | NameStr string | NameOther

datatype payload =
    P_Nadac "NadacItem list"      \<comment> \<open>an array of NADAC records\<close>
  | P_GoodRx "GoodRxItem list"    \<comment> \<open>an array, or an object whose \<^verbatim>\<open>results\<close> or \<^verbatim>\<open>prices\<close> is one\<close>
  | P_RxIds "string list"         \<comment> \<open>\<^verbatim>\<open>rxnormdata.idGroup.rxnormId\<close> is an array; its items under \<^verbatim>\<open>String\<close>\<close>
  | P_RxNdcs "string list"        \<comment> \<open>\<^verbatim>\<open>rxnormdata.ndcGroup.ndcList.ndc\<close> is an array\<close>
  | P_RxName name_field           \<comment> \<open>\<^verbatim>\<open>rxnormdata.idGroup.name\<close>\<close>
  | P_Other                       \<comment> \<open>any other JSON value\<close>

text \<open>Provider calls thread the cache and list the upstream requests they make.\<close>

type_synonym 'a io = "(js_error + 'a) \<times> (url, payload) cache \<times> url list"

definition then_io :: "'a io \<Rightarrow> ('a \<Rightarrow> (url, payload) cache \<Rightarrow> 'b io) \<Rightarrow> 'b io" where
  "then_io m f =
     (case m of
        (Inl e, c, calls) \<Rightarrow> (Inl e, c, calls)
      | (Inr a, c, calls) \<Rightarrow> (case f a c of (r, c', calls') \<Rightarrow> (r, c', calls @ calls')))"

text \<open>
  The outside world of one request: the answers of the upstream services, the clock
  readings of each cached fetch (lines 98 and 103) and of the two rate-limit checks, the
  regional export (over HTTP or from a file, already read into rows of header/cell
  pairs, with \<open>None\<close> when reading or parsing throws), and the platform.
\<close>

type_synonym sheet = "(string \<times> string) list list"

record world =
  http :: "url \<Rightarrow> payload http_result"
  clock :: "url \<Rightarrow> int \<times> int"
  now_rl :: int
  now_grl :: int
  fl_http :: "url \<Rightarrow> sheet http_result"
  fl_file :: "string \<Rightarrow> sheet option"
  js :: platform

record config =
  RATE_WINDOW_MS :: int
  RATE_MAX :: int
  GOODRX_RATE_MAX :: int
  CACHE_TTL_RXNORM_MS :: int
  CACHE_TTL_NADAC_MS :: int
  CACHE_TTL_GOODRX_MS :: int
  FL_TEMPLATE :: string
  FL_TEST_REL :: string
  GOODRX_API_KEY :: "string option"

definition cached :: "world \<Rightarrow> (url, payload) cache \<Rightarrow> url \<Rightarrow> int \<Rightarrow> string \<Rightarrow> payload option io" where
  "cached w c u ttlMs bucketName =
     fetchJSONCached (http w) (fst (clock w u)) (snd (clock w u)) c u ttlMs bucketName"

subsection \<open>NADAC (lines 148-175)\<close>

definition nadac_row :: "platform \<Rightarrow> url \<Rightarrow> jsnum \<Rightarrow> NadacItem \<Rightarrow> PriceRow" where
  "nadac_row pf u q r =
     (let unitP = toNumberSafe (n_nadac_per_unit r);
          totalP = toFixed4 (js_mul unitP q)
      in (blank_row (toLowerCase pf (or_str (n_generic_name r) [])) q totalP unitP u
            ''NADAC (HealthData.gov 2024)'')
         \<lparr>pricingUnit := or_undefined (n_pricing_unit r),
          packageSize := or_undefined (n_package_size r),
          ndc := or_undefined (n_ndc r),
          effectiveDate := or_undefined (n_effective_date r),
          notes_field := Some ''NADAC is an acquisition cost benchmark (not retail price).''\<rparr>)"

definition fetchNadac ::
  "world \<Rightarrow> config \<Rightarrow> (url, payload) cache \<Rightarrow> string \<Rightarrow> jsnum \<Rightarrow> jsnum \<Rightarrow> (PriceRow list \<times> url) io" where
  "fetchNadac w cfg c drugQuery q limit =
     (let u = NadacUrl drugQuery (Math_min (Math_max limit (Fin 1)) (Fin 50))
      in then_io (cached w c u (CACHE_TTL_NADAC_MS cfg) ''nadac'')
           (\<lambda>d c'. (Inr (case d of Some (P_Nadac items) \<Rightarrow> map (nadac_row (js w) u q) items | _ \<Rightarrow> [], u),
                     c', [])))"

subsection \<open>GoodRx (lines 182-230)\<close>

record GoodRxInput =
  in_drug :: string
  in_qty :: jsnum
  in_zip :: "string option"
  in_limit :: jsnum

text \<open>\<^verbatim>\<open>a ?? b ?? c\<close> under \<^verbatim>\<open>Number\<close>: the first field that is there, else \<^verbatim>\<open>NaN\<close>.\<close>

definition first_present :: "jsnum option list \<Rightarrow> jsnum" where
  "first_present xs = (case List.find (\<lambda>x. x \<noteq> None) xs of Some (Some v) \<Rightarrow> v | _ \<Rightarrow> NaN)"

definition goodrx_row :: "platform \<Rightarrow> url \<Rightarrow> GoodRxInput \<Rightarrow> GoodRxItem \<Rightarrow> PriceRow" where
  "goodrx_row pf u inp p =
     (let unitP = toNumberSafe (first_present [g_price_per_unit p, g_unit_price p, g_price p]);
          totalP = toNumberSafe (case g_total_price p of Some t \<Rightarrow> t
                                 | None \<Rightarrow> js_mul unitP (in_qty inp));
          pharmacyName = or_else (g_pharmacy_name p) (g_pharmacy p)
      in (blank_row (toLowerCase pf (or_str (or_else (g_generic_name p) (g_name p)) (in_drug inp)))
            (in_qty inp) (toFixed4 totalP) (toFixed4 unitP) u ''GoodRx'')
         \<lparr>form := or_undefined (g_form p),
          strength := or_undefined (g_strength p),
          pharmacy := pharmacyName,
          chain_field := deriveChain pf pharmacyName,
          pricingUnit := or_undefined (g_pricing_unit p),
          packageSize := or_undefined (g_package_size p),
          ndc := or_undefined (g_ndc p),
          zip_field := or_undefined (in_zip inp),
          effectiveDate := or_undefined (or_else (g_effective_date p) (g_updated_at p)),
          notes_field := Some ''Consumer-facing discount price (volatile; do not store long-term).''\<rparr>)"

text \<open>Lines 198-202: the fetch without the cache.\<close>

definition fetch_uncached :: "world \<Rightarrow> (url, payload) cache \<Rightarrow> url \<Rightarrow> payload option io" where
  "fetch_uncached w c u =
     (case http w u of
        Rejects \<Rightarrow> (Inl FetchError, c, [u])
      | NotOk \<Rightarrow> (Inr None, c, [u])
      | BadBody \<Rightarrow> (Inl SyntaxError, c, [u])
      | Body d \<Rightarrow> (Inr (Some d), c, [u]))"

definition fetchGoodRxPrices ::
  "world \<Rightarrow> config \<Rightarrow> (url, payload) cache \<Rightarrow> GoodRxInput \<Rightarrow> (PriceRow list \<times> url) io" where
  "fetchGoodRxPrices w cfg c inp =
     (if \<not> truthy (GOODRX_API_KEY cfg) then (Inr ([], GoodRxBase), c, [])
      else
        let u = GoodRxUrl (in_drug inp) (in_qty inp) (or_undefined (in_zip inp))
                  (Math_min (Math_max (in_limit inp) (Fin 1)) (Fin 10))
        in then_io
             (if CACHE_TTL_GOODRX_MS cfg > 0
              then cached w c u (CACHE_TTL_GOODRX_MS cfg) ''goodrx''
              else fetch_uncached w c u)
             (\<lambda>d c'. (Inr (case d of Some (P_GoodRx items) \<Rightarrow> map (goodrx_row (js w) u inp) items
                                    | _ \<Rightarrow> [], u),
                       c', [])))"

subsection \<open>RxNorm resolver (lines 240-272)\<close>

record RxNormResolved =
  rxcui :: "string option"
  rx_name :: name_field
  ndcs :: "string list"
  resolutionSourceUrl :: "url option"
  ndcsSourceUrl :: "url option"

text \<open>\<^verbatim>\<open>ids\<close> of lines 247 and 252, when it is a non-empty array.\<close>

definition found_ids :: "payload option \<Rightarrow> string list option" where
  "found_ids d = (case d of Some (P_RxIds (i # ids)) \<Rightarrow> Some (i # ids) | _ \<Rightarrow> None)"

definition resolveRxNorm ::
  "world \<Rightarrow> config \<Rightarrow> (url, payload) cache \<Rightarrow> string \<Rightarrow> RxNormResolved io" where
  "resolveRxNorm w cfg c drugFreeText =
     then_io (cached w c (RxFindUrl drugFreeText 1) (CACHE_TTL_RXNORM_MS cfg) ''rxnorm_find'')
       (\<lambda>d1 c1.
          then_io
            (case found_ids d1 of
               Some ids \<Rightarrow> (Inr (Some ids, RxFindUrl drugFreeText 1), c1, [])
             | None \<Rightarrow>
                 then_io (cached w c1 (RxFindUrl drugFreeText 9) (CACHE_TTL_RXNORM_MS cfg)
                            ''rxnorm_find'')
                   (\<lambda>d2 c2. (Inr (found_ids d2, RxFindUrl drugFreeText 9), c2, [])))
            (\<lambda>(ids, u) c3.
               let cui = (case ids of Some (i # _) \<Rightarrow> Some i | _ \<Rightarrow> None);
                   sourceUrl = (case ids of Some (i # _) \<Rightarrow> Some u | _ \<Rightarrow> None)
               in if truthy cui
                  then
                    then_io (cached w c3 (RxNdcsUrl (the cui)) (CACHE_TTL_RXNORM_MS cfg)
                               ''rxnorm_ndcs'')
                      (\<lambda>ndcJson c4.
                         then_io (cached w c4 (RxNameUrl (the cui)) (CACHE_TTL_RXNORM_MS cfg)
                                    ''rxnorm_name'')
                           (\<lambda>nameJson c5.
                              (Inr \<lparr>rxcui = cui,
                                    rx_name = (case nameJson of Some (P_RxName n) \<Rightarrow> n
                                               | _ \<Rightarrow> NameAbsent),
                                    ndcs = (case ndcJson of Some (P_RxNdcs arr) \<Rightarrow> arr | _ \<Rightarrow> []),
                                    resolutionSourceUrl = sourceUrl,
                                    ndcsSourceUrl = Some (RxNdcsUrl (the cui))\<rparr>,
                               c5, [])))
                  else (Inr \<lparr>rxcui = cui, rx_name = NameAbsent, ndcs = [],
                             resolutionSourceUrl = sourceUrl, ndcsSourceUrl = None\<rparr>,
                        c3, [])))"

subsection \<open>Florida MyFloridaRX (lines 280-363)\<close>

text \<open>
  \<^verbatim>\<open>pick(row, keys, fallback)\<close>; a row of the sheet is a list of header/cell pairs and a
  cell is the text \<^verbatim>\<open>String(v)\<close> of its value.
\<close>

fun pick :: "platform \<Rightarrow> (string \<times> string) list \<Rightarrow> string list \<Rightarrow> string option \<Rightarrow> string option" where
  "pick pf row [] fallback = fallback"
| "pick pf row (k # ks) fallback =
     (case map_of row k of
        None \<Rightarrow> pick pf row ks fallback
      | Some v \<Rightarrow> if v \<noteq> [] then Some (trim pf v) else pick pf row ks fallback)"

text \<open>\<^verbatim>\<open>Number(s)\<close> of an optional text; \<^verbatim>\<open>Number(undefined)\<close> is \<^verbatim>\<open>NaN\<close>.\<close>

definition Number_opt :: "(string \<Rightarrow> jsnum) \<Rightarrow> string option \<Rightarrow> jsnum" where
  "Number_opt num s = (case s of None \<Rightarrow> NaN | Some t \<Rightarrow> num t)"

definition florida_row ::
  "platform \<Rightarrow> url \<Rightarrow> string \<Rightarrow> jsnum \<Rightarrow> (string \<times> string) list \<Rightarrow> PriceRow" where
  "florida_row pf sourceUrl requestedDrug q r =
     (let pharmacyName = pick pf r [''Pharmacy'', ''Pharmacy Name'', ''Name''] None;
          drugName = pick pf r [''Drug Name'', ''Drug''] None;
          quantity = Number_opt (Number_of pf) (pick pf r [''Quantity'', ''Qty''] (Some ''30''));
          priceStr = pick pf r [''Price'', ''Usual and Customary Price'', ''U&C''] None;
          cityV = pick pf r [''City''] None;
          addressV = pick pf r [''Address'', ''Street''] None;
          ndcV = pick pf r [''NDC'', ''NDC Code''] None;
          price = (if truthy priceStr then Number_opt (Number_of pf) priceStr else Fin 0);
          quot = js_div price (if truthy_num quantity then quantity else Fin 1);
          unitP = (if truthy_num quot then quot else Fin 0)
      in (blank_row (toLowerCase pf (or_str (or_else drugName (Some requestedDrug)) []))
            q (toFixed4 (js_mul unitP q)) (toFixed4 unitP) sourceUrl ''Florida MyFloridaRX'')
         \<lparr>pharmacy := pharmacyName,
          chain_field := deriveChain pf pharmacyName,
          ndc := ndcV,
          pricingUnit := Some ''per unit'',
          address := addressV,
          city := cityV,
          state_field := Some ''FL'',
          notes_field := Some
            ''Retail 'usual & customary' price from paid-claims-derived data; updated monthly.''\<rparr>)"

text \<open>\<^verbatim>\<open>parseFloridaWorkbook\<close>, on the rows that \<^verbatim>\<open>XLSX.utils.sheet_to_json\<close> returns.\<close>

definition parseFloridaWorkbook ::
  "platform \<Rightarrow> sheet \<Rightarrow> url \<Rightarrow> string \<Rightarrow> jsnum \<Rightarrow> jsnum \<Rightarrow> PriceRow list \<times> url" where
  "parseFloridaWorkbook pf json sourceUrl requestedDrug q limit =
     (map (florida_row pf sourceUrl requestedDrug q) (slice0 json limit), sourceUrl)"

text \<open>\<^verbatim>\<open>FL_TEST_REL.replace(/^\//, "")\<close>.\<close>

definition strip_slash :: "string \<Rightarrow> string" where
  "strip_slash s = (case s of [] \<Rightarrow> [] | c # cs \<Rightarrow> if c = CHR ''/'' then cs else c # cs)"

definition fetchFloridaMyRxExcel ::
  "world \<Rightarrow> config \<Rightarrow> string \<Rightarrow> jsnum \<Rightarrow> string option \<Rightarrow> jsnum
     \<Rightarrow> (js_error + PriceRow list \<times> url) \<times> url list" where
  "fetchFloridaMyRxExcel w cfg drugQ q county limit =
     (if FL_TEMPLATE cfg \<noteq> []
      then
        (let u = FloridaUrl (FL_TEMPLATE cfg) drugQ (or_str county ''All Counties'')
         in case fl_http w u of
              Rejects \<Rightarrow> (Inl FetchError, [u])
            | NotOk \<Rightarrow> (Inr ([], u), [u])
            | BadBody \<Rightarrow> (Inl FileError, [u])
            | Body json \<Rightarrow> (Inr (parseFloridaWorkbook (js w) json u drugQ q limit), [u]))
      else
        (let relFromEnv = strip_slash (FL_TEST_REL cfg)
         in if relFromEnv \<noteq> []
            then (case fl_file w relFromEnv of
                    None \<Rightarrow> (Inl FileError, [Literal relFromEnv])
                  | Some json \<Rightarrow>
                      (Inr (parseFloridaWorkbook (js w) json
                              (Literal (''/'' @ relFromEnv)) drugQ q limit),
                       [Literal relFromEnv]))
            else (case fl_file w ''florida-sample.csv'' of
                    None \<Rightarrow> (Inr ([], Literal []), [Literal ''florida-sample.csv''])
                  | Some json \<Rightarrow>
                      (Inr (parseFloridaWorkbook (js w) json
                              (Literal ''/florida-sample.csv'') drugQ q limit),
                       [Literal ''florida-sample.csv'']))))"

subsection \<open>Mock layer (lines 121-140 and 519-535)\<close>

text \<open>The fixture: each row with its \<^verbatim>\<open>zipCoverage\<close>.\<close>

definition MOCK :: "(PriceRow \<times> string list) list" where
  "MOCK =
    [((blank_row ''atorvastatin'' (Fin 30) (Fin (999 / 100)) (Fin (999 / 100 / 30))
         (Literal ''mock://walmart/atorvastatin-20mg-30'') ''Mock'')
        \<lparr>form := Some ''tablet'', strength := Some ''20 mg'', pharmacy := Some ''Walmart (Mock)'',
         lastUpdated := Some ''2025-09-01T00:00:00Z''\<rparr>,
      [''85001'', ''85002'', ''85281'', ''99999'']),
     ((blank_row ''atorvastatin'' (Fin 30) (Fin (1149 / 100)) (Fin (1149 / 100 / 30))
         (Literal ''mock://cvs/atorvastatin-10mg-30'') ''Mock'')
        \<lparr>form := Some ''tablet'', strength := Some ''10 mg'', pharmacy := Some ''CVS (Mock)'',
         lastUpdated := Some ''2025-08-27T00:00:00Z''\<rparr>,
      [''85001'', ''85018'', ''85281'']),
     ((blank_row ''metformin'' (Fin 60) (Fin (65 / 10)) (Fin (65 / 10 / 60))
         (Literal ''mock://costco/metformin-500mg-60'') ''Mock'')
        \<lparr>form := Some ''tablet'', strength := Some ''500 mg'', pharmacy := Some ''Costco (Mock)'',
         lastUpdated := Some ''2025-09-05T00:00:00Z''\<rparr>,
      [''85001'', ''85281''])]"

definition mock_row :: "platform \<Rightarrow> jsnum \<Rightarrow> string \<Rightarrow> PriceRow \<Rightarrow> PriceRow" where
  "mock_row pf q zipV r =
     r\<lparr>qty := q,
       unitPrice := toFixed4 (js_div (totalPrice r) (qty r)),
       totalPrice := toFixed4 (js_mul (js_div (totalPrice r) (qty r)) q),
       zip_field := (if zipV \<noteq> [] then Some zipV else None),
       chain_field := deriveChain pf (pharmacy r)\<rparr>"

definition mockFiltered :: "platform \<Rightarrow> string \<Rightarrow> string \<Rightarrow> jsnum \<Rightarrow> PriceRow list" where
  "mockFiltered pf normalizedDrug zipV q =
     map (\<lambda>(r, cov). mock_row pf q zipV r)
       (filter (\<lambda>(r, cov). if zipV \<noteq> [] then zipV \<in> set cov else True)
          (filter (\<lambda>(r, cov). includes_str (toLowerCase pf (drug r)) normalizedDrug) MOCK))"

subsection \<open>Post-processing (lines 537-586)\<close>

text \<open>\<^verbatim>\<open>s.split(",")\<close>.\<close>

fun split_on :: "char \<Rightarrow> string \<Rightarrow> string list" where
  "split_on sep [] = [[]]"
| "split_on sep (c # cs) =
     (case split_on sep cs of
        [] \<Rightarrow> [[c]]
      | p # ps \<Rightarrow> if c = sep then [] # p # ps else (c # p) # ps)"

definition chainSet_of :: "platform \<Rightarrow> string \<Rightarrow> string list" where
  "chainSet_of pf chainParam = filter (\<lambda>s. s \<noteq> []) (map (trim pf) (split_on CHR '','' chainParam))"

definition chain_filter :: "string list \<Rightarrow> PriceRow list \<Rightarrow> PriceRow list" where
  "chain_filter chainSet rows =
     filter (\<lambda>r. truthy (chain_field r) \<and> the (chain_field r) \<in> set chainSet) rows"

definition form_filter :: "platform \<Rightarrow> string \<Rightarrow> PriceRow list \<Rightarrow> PriceRow list" where
  "form_filter pf formFilter rows =
     filter (\<lambda>r. includes_str (toLowerCase pf (or_str (form r) [])) formFilter) rows"

definition strength_filter :: "platform \<Rightarrow> string \<Rightarrow> PriceRow list \<Rightarrow> PriceRow list" where
  "strength_filter pf strengthFilter rows =
     filter (\<lambda>r. includes_str (toLowerCase pf (or_str (strength r) [])) strengthFilter) rows"

text \<open>
  A JavaScript \<^verbatim>\<open>Map\<close> keeps its keys in insertion order: \<^verbatim>\<open>set\<close> on a key that is there
  replaces the value in place, on a new key it appends.
\<close>

fun map_set :: "('k \<times> 'v) list \<Rightarrow> 'k \<Rightarrow> 'v \<Rightarrow> ('k \<times> 'v) list" where
  "map_set [] k v = [(k, v)]"
| "map_set ((k', v') # m) k v = (if k' = k then (k, v) # m else (k', v') # map_set m k v)"

text \<open>\<^verbatim>\<open>keyFn\<close> of lines 554-556, for \<^verbatim>\<open>dedupe === "chain"\<close> and otherwise.\<close>

definition keyFn :: "string \<Rightarrow> PriceRow \<Rightarrow> string" where
  "keyFn dedupe r =
     (if dedupe = ''chain''
      then or_str (or_else (chain_field r) (pharmacy r)) ''unknown''
      else or_str (pharmacy r) ''unknown'')"

text \<open>The body of the loop of lines 559-563.\<close>

definition pick_cheapest ::
  "(PriceRow \<Rightarrow> string) \<Rightarrow> (string \<times> PriceRow) list \<Rightarrow> PriceRow \<Rightarrow> (string \<times> PriceRow) list" where
  "pick_cheapest kf picked r =
     (let k = kf r
      in case map_of picked k of
           None \<Rightarrow> map_set picked k r
         | Some prev \<Rightarrow>
             if js_lt (totalPrice r) (totalPrice prev) then map_set picked k r else picked)"

definition dedupe_rows :: "(PriceRow \<Rightarrow> string) \<Rightarrow> PriceRow list \<Rightarrow> PriceRow list" where
  "dedupe_rows kf rows = map snd (foldl (pick_cheapest kf) [] rows)"

text \<open>
  \<^verbatim>\<open>Array.prototype.sort\<close> with a comparator. The sort is stable, a comparator value of
  \<^verbatim>\<open>NaN\<close> counts as 0, and for a consistent comparator the result is the one a stable
  insertion sort gives: each element goes in front of the first later element that it
  does not compare greater than.
\<close>

fun sort_insert :: "('a \<Rightarrow> 'a \<Rightarrow> jsnum) \<Rightarrow> 'a \<Rightarrow> 'a list \<Rightarrow> 'a list" where
  "sort_insert cmp x [] = [x]"
| "sort_insert cmp x (y # ys) =
     (if js_lt (Fin 0) (cmp x y) then y # sort_insert cmp x ys else x # y # ys)"

definition js_sort :: "('a \<Rightarrow> 'a \<Rightarrow> jsnum) \<Rightarrow> 'a list \<Rightarrow> 'a list" where
  "js_sort cmp xs = foldr (sort_insert cmp) xs []"

text \<open>The comparator of line 571 and lines 571-572 together.\<close>

definition by_totalPrice :: "PriceRow \<Rightarrow> PriceRow \<Rightarrow> jsnum" where
  "by_totalPrice a b = js_sub (totalPrice a) (totalPrice b)"

definition sort_and_limit :: "PriceRow list \<Rightarrow> jsnum \<Rightarrow> PriceRow list" where
  "sort_and_limit rows limit = slice0 (js_sort by_totalPrice rows) limit"

text \<open>Lines 575-586: count and minimum total per chain, in order of first appearance.\<close>

definition summary_step :: "(string \<times> nat \<times> jsnum) list \<Rightarrow> PriceRow \<Rightarrow> (string \<times> nat \<times> jsnum) list" where
  "summary_step m r =
     (if \<not> truthy (chain_field r) then m
      else let k = the (chain_field r);
               rec = (case map_of m k of None \<Rightarrow> (0, PosInf) | Some x \<Rightarrow> x)
           in map_set m k (fst rec + 1, Math_min (snd rec) (totalPrice r)))"

definition groupSummary_of :: "PriceRow list \<Rightarrow> (string \<times> nat \<times> jsnum) list" where
  "groupSummary_of results =
     map (\<lambda>(k, n, m). (k, n, toFixed4 m)) (foldl summary_step [] results)"

subsection \<open>Handler (lines 368-625)\<close>

text \<open>
  The query parameters and the two headers the handler reads; \<open>None\<close> is a parameter
  that is not there. \<open>q_qty\<close> and \<open>q_limit\<close> are \<open>None\<close> when the parameter is missing or
  empty and else the number \<^verbatim>\<open>Number\<close> makes of its text.
\<close>

record request =
  q_drug :: "string option"
  q_zip :: "string option"
  q_qty :: "jsnum option"
  q_limit :: "jsnum option"
  q_includeMock :: "string option"
  q_includeNadac :: "string option"
  q_includeRxNorm :: "string option"
  q_includeFlorida :: "string option"
  q_flCounty :: "string option"
  q_includeGoodRx :: "string option"
  q_chains :: "string option"
  q_privacy :: "string option"
  q_dedupe :: "string option"
  q_form :: "string option"
  q_strength :: "string option"
  x_forwarded_for :: "string option"
  x_real_ip :: "string option"

text \<open>
  \<^verbatim>\<open>getClientKey\<close> (lines 71-75); \<^verbatim>\<open>fwd.split(",")[0]\<close> is the text before the first
  comma.
\<close>

definition getClientKey :: "platform \<Rightarrow> request \<Rightarrow> string" where
  "getClientKey pf req =
     (let fwd = or_str (x_forwarded_for req) [];
          ip = trim pf (or_str (or_else (Some (takeWhile (\<lambda>ch. ch \<noteq> CHR '','') fwd)) (x_real_ip req))
                      ''anon'')
      in ''ip:'' @ ip)"

record DatasetInfo =
  ds_name :: string
  ds_info :: string
  ds_homepage :: "string option"

record Resolution =
  res_rxcui :: "string option"
  canonicalName :: name_field
  ndcCount :: nat
  res_sourceUrl :: "url option"
  res_ndcsSourceUrl :: "url option"

text \<open>
  The transparency object. \<open>nadacBaseline\<close> is \<open>None\<close> until line 495 attaches it; then
  it holds \<^verbatim>\<open>unitMin\<close>, a number or \<^verbatim>\<open>null\<close>. \<open>florida\<close> is the pair of line 506.
\<close>

record Transparency =
  datasets :: "DatasetInfo list"
  caveats :: "string list"
  attempted :: "string list"
  resolution :: "Resolution option"
  debug :: "string option \<times> string option"
  nadacBaseline :: "jsnum option option"
  florida :: "(url \<times> nat) option"

text \<open>What the handler holds while it aggregates, with the two process-wide maps.\<close>

record hstate =
  h_rows :: "PriceRow list"
  h_tr :: Transparency
  h_rl :: rl_map
  h_cache :: "(url, payload) cache"
  h_calls :: "url list"

record Inputs =
  i_drug :: string
  i_normalizedDrug :: string
  i_zip :: "string option"
  i_qty :: jsnum
  i_limit :: jsnum
  i_includeGoodRx :: bool
  i_includeNadac :: bool
  i_includeMock :: bool
  i_includeRxNorm :: bool
  i_includeFlorida :: bool
  i_flCounty :: "string option"
  i_chains :: "string option"
  i_dedupe :: string
  i_form :: "string option"
  i_strength :: "string option"

record Body =
  ok :: bool
  error_msg :: "string option"
  count_field :: nat
  privacy :: "string option"
  inputs :: "Inputs option"
  results :: "PriceRow list"
  groupSummary :: "(string \<times> nat \<times> jsnum) list"
  transparency :: "Transparency option"

record Response =
  status :: nat
  body :: Body
  hdr_privacy :: "string option"
  hdr_limit :: "int option"
  hdr_remaining :: "int option"
  hdr_reset :: "int option"

definition error_response :: "nat \<Rightarrow> string \<Rightarrow> Response" where
  "error_response st msg =
     \<lparr>status = st,
      body = \<lparr>ok = False, error_msg = Some msg, count_field = 0, privacy = None, inputs = None,
              results = [], groupSummary = [], transparency = None\<rparr>,
      hdr_privacy = None, hdr_limit = None, hdr_remaining = None, hdr_reset = None\<rparr>"

text \<open>
  Lines 428-436. The \<^verbatim>\<open>try\<close> covers the resolver and the \<^verbatim>\<open>toLowerCase\<close> on the name
  it returns; \<^verbatim>\<open>rxnorm\<close> is assigned before that call.
\<close>

definition resolve_stage ::
  "world \<Rightarrow> config \<Rightarrow> (url, payload) cache \<Rightarrow> bool \<Rightarrow> string
     \<Rightarrow> (string \<times> RxNormResolved option) \<times> (url, payload) cache \<times> url list" where
  "resolve_stage w cfg c includeRxNorm rawDrug =
     (let normalizedDrug = toLowerCase (js w) rawDrug
      in if includeRxNorm
         then (case resolveRxNorm w cfg c normalizedDrug of
                 (Inl e, c', calls) \<Rightarrow> ((normalizedDrug, None), c', calls)
               | (Inr rx, c', calls) \<Rightarrow>
                   (case rx_name rx of
                      NameStr n \<Rightarrow>
                        if n \<noteq> [] then ((toLowerCase (js w) n, Some rx), c', calls)
                        else ((normalizedDrug, Some rx), c', calls)
                    | NameOther \<Rightarrow> ((normalizedDrug, Some rx), c', calls)
                    | NameAbsent \<Rightarrow> ((normalizedDrug, Some rx), c', calls)))
         else ((normalizedDrug, None), c, []))"

definition push_caveat :: "string \<Rightarrow> Transparency \<Rightarrow> Transparency" where
  "push_caveat s tr = tr\<lparr>caveats := caveats tr @ [s]\<rparr>"

definition push_attempted :: "string \<Rightarrow> Transparency \<Rightarrow> Transparency" where
  "push_attempted s tr = tr\<lparr>attempted := attempted tr @ [s]\<rparr>"

definition push_dataset :: "DatasetInfo \<Rightarrow> Transparency \<Rightarrow> Transparency" where
  "push_dataset d tr = tr\<lparr>datasets := datasets tr @ [d]\<rparr>"

text \<open>Lines 455-472.\<close>

definition goodrx_stage ::
  "world \<Rightarrow> config \<Rightarrow> bool \<Rightarrow> string \<Rightarrow> string \<Rightarrow> jsnum \<Rightarrow> string \<Rightarrow> jsnum \<Rightarrow> hstate \<Rightarrow> hstate" where
  "goodrx_stage w cfg includeGoodRx clientKey normalizedDrug q zipV limit s =
     (if includeGoodRx
      then
        (case rateLimit (h_rl s) (now_grl w) (clientKey @ ''|goodrx'') (GOODRX_RATE_MAX cfg)
                (RATE_WINDOW_MS cfg) of
           (grl, rl') \<Rightarrow>
             if allowed grl
             then
               (case fetchGoodRxPrices w cfg (h_cache s)
                       \<lparr>in_drug = normalizedDrug, in_qty = q,
                        in_zip = (if zipV \<noteq> [] then Some zipV else None), in_limit = limit\<rparr> of
                  (Inl e, c', calls) \<Rightarrow>
                    s\<lparr>h_tr := push_attempted ''GoodRx'' (h_tr s), h_rl := rl', h_cache := c',
                      h_calls := h_calls s @ calls\<rparr>
                | (Inr (grxRows, u), c', calls) \<Rightarrow>
                    if grxRows \<noteq> []
                    then s\<lparr>h_rows := h_rows s @ grxRows,
                           h_tr := push_caveat
                                     ''GoodRx prices change frequently; do not store long-term.''
                                     (push_dataset
                                        \<lparr>ds_name = ''GoodRx'',
                                         ds_info = ''Consumer-facing discount cash prices.'',
                                         ds_homepage = Some ''https://www.goodrx.com/''\<rparr>
                                        (push_attempted ''GoodRx'' (h_tr s))),
                           h_rl := rl', h_cache := c', h_calls := h_calls s @ calls\<rparr>
                    else s\<lparr>h_tr := push_attempted ''GoodRx'' (h_tr s), h_rl := rl',
                           h_cache := c', h_calls := h_calls s @ calls\<rparr>)
             else s\<lparr>h_tr := push_caveat
                               ''GoodRx calls throttled for this client to protect upstream limits.''
                               (h_tr s),
                    h_rl := rl'\<rparr>)
      else s)"

text \<open>
  Lines 475-487. The rows the provider returns are bound to \<^verbatim>\<open>nadacRows\<close> by a \<^verbatim>\<open>const\<close>
  inside the \<^verbatim>\<open>try\<close> block: the binding ends with the block, and the stage hands on
  \<^verbatim>\<open>rows\<close> and \<^verbatim>\<open>transparency\<close> only.
\<close>

definition nadac_stage :: "world \<Rightarrow> config \<Rightarrow> bool \<Rightarrow> string \<Rightarrow> jsnum \<Rightarrow> jsnum \<Rightarrow> hstate \<Rightarrow> hstate" where
  "nadac_stage w cfg includeNadac normalizedDrug q limit s =
     (if includeNadac
      then
        (case fetchNadac w cfg (h_cache s) normalizedDrug q limit of
           (Inl e, c', calls) \<Rightarrow>
             s\<lparr>h_tr := push_attempted ''NADAC'' (h_tr s), h_cache := c',
               h_calls := h_calls s @ calls\<rparr>
         | (Inr (nadacRows, u), c', calls) \<Rightarrow>
             if nadacRows \<noteq> []
             then s\<lparr>h_rows := h_rows s @ nadacRows,
                    h_tr := push_caveat ''NADAC is acquisition cost, not retail price.''
                              (push_dataset
                                 \<lparr>ds_name = ''NADAC (HealthData.gov)'',
                                  ds_info =
                                    ''Open benchmark of pharmacy acquisition cost; updated weekly.'',
                                  ds_homepage = Some ''https://www.medicaid.gov/medicaid/nadac''\<rparr>
                                 (push_attempted ''NADAC'' (h_tr s))),
                    h_cache := c', h_calls := h_calls s @ calls\<rparr>
             else s\<lparr>h_tr := push_caveat ''No NADAC rows matched this query.''
                              (push_attempted ''NADAC'' (h_tr s)),
                    h_cache := c', h_calls := h_calls s @ calls\<rparr>)
      else s)"

text \<open>
  Evaluating an identifier: the value bound to it in the scopes that enclose the
  expression, and a \<^verbatim>\<open>ReferenceError\<close> when no scope binds it.
\<close>

definition resolve_identifier :: "(string \<times> 'v) list \<Rightarrow> string \<Rightarrow> js_error + 'v" where
  "resolve_identifier scope x =
     (case map_of scope x of None \<Rightarrow> Inl (ReferenceError x) | Some v \<Rightarrow> Inr v)"

text \<open>
  Lines 490-498, on the value of \<^verbatim>\<open>nadacRows\<close>: \<^verbatim>\<open>Math.min\<close> over the finite unit prices
  (\<^verbatim>\<open>Infinity\<close> when there is none), kept when it is finite.
\<close>

definition nadacUnitMin :: "PriceRow list \<Rightarrow> jsnum option" where
  "nadacUnitMin nadacRows =
     (if nadacRows \<noteq> []
      then Some (foldl Math_min PosInf (filter isFinite (map unitPrice nadacRows)))
      else None)"

definition attach_baseline :: "PriceRow list \<Rightarrow> Transparency \<Rightarrow> Transparency" where
  "attach_baseline nadacRows tr =
     tr\<lparr>nadacBaseline :=
          Some (case nadacUnitMin nadacRows of
                  Some m \<Rightarrow> if isFinite m then Some m else None
                | None \<Rightarrow> None)\<rparr>"

text \<open>Lines 501-517.\<close>

definition florida_stage ::
  "world \<Rightarrow> config \<Rightarrow> bool \<Rightarrow> string \<Rightarrow> jsnum \<Rightarrow> string \<Rightarrow> jsnum \<Rightarrow> hstate \<Rightarrow> hstate" where
  "florida_stage w cfg includeFlorida normalizedDrug q flCounty limit s =
     (if includeFlorida
      then
        (case fetchFloridaMyRxExcel w cfg normalizedDrug q
                (if flCounty \<noteq> [] then Some flCounty else None) limit of
           (Inl e, calls) \<Rightarrow>
             s\<lparr>h_tr := push_caveat ''Florida MyFloridaRX fetch error.''
                         (push_attempted ''Florida MyFloridaRX'' (h_tr s)),
               h_calls := h_calls s @ calls\<rparr>
         | (Inr (flRows, flUrl), calls) \<Rightarrow>
             (let tr1 = (push_attempted ''Florida MyFloridaRX'' (h_tr s))
                          \<lparr>florida := Some (flUrl, length flRows)\<rparr>
              in if flRows \<noteq> []
                 then s\<lparr>h_rows := h_rows s @ flRows,
                        h_tr := push_caveat
                                  ''Florida-only dataset based on paid claims; prices change frequently.''
                                  (push_dataset
                                     \<lparr>ds_name = ''Florida MyFloridaRX'',
                                      ds_info =
                                        ''Pharmacy-level 'usual & customary' retail prices (monthly).'',
                                      ds_homepage = Some ''https://prescription.healthfinder.fl.gov/''\<rparr>
                                     tr1),
                        h_calls := h_calls s @ calls\<rparr>
                 else s\<lparr>h_tr := push_caveat ''Florida MyFloridaRX returned no rows for this query.''
                                  tr1,
                        h_calls := h_calls s @ calls\<rparr>))
      else s)"

text \<open>Lines 519-535.\<close>

definition mock_stage :: "platform \<Rightarrow> bool \<Rightarrow> string \<Rightarrow> string \<Rightarrow> jsnum \<Rightarrow> hstate \<Rightarrow> hstate" where
  "mock_stage pf includeMock normalizedDrug zipV q s =
     (if includeMock
      then s\<lparr>h_rows := h_rows s @ mockFiltered pf normalizedDrug zipV q,
             h_tr := push_dataset
                       \<lparr>ds_name = ''Mock'', ds_info = ''Demonstration data for development.'',
                        ds_homepage = None\<rparr>
                       (push_attempted ''Mock'' (h_tr s))\<rparr>
      else s)"

text \<open>Lines 537-566: the filters and the dedupe, with the caveat each one records.\<close>

definition filter_stage :: "platform \<Rightarrow> string \<Rightarrow> string \<Rightarrow> string \<Rightarrow> hstate \<Rightarrow> hstate" where
  "filter_stage pf chainParam formFilter strengthFilter s =
     (let s1 = (if chainSet_of pf chainParam \<noteq> []
                then s\<lparr>h_rows := chain_filter (chainSet_of pf chainParam) (h_rows s),
                       h_tr := push_caveat
                                 ''Chain filter applied; non-chain datasets without a pharmacy (e.g., NADAC) are omitted.''
                                 (h_tr s)\<rparr>
                else s);
          s2 = (if formFilter \<noteq> []
                then s1\<lparr>h_rows := form_filter pf formFilter (h_rows s1),
                        h_tr := push_caveat (''Form filter applied: \"'' @ formFilter @ ''\".'')
                                  (h_tr s1)\<rparr>
                else s1)
      in if strengthFilter \<noteq> []
         then s2\<lparr>h_rows := strength_filter pf strengthFilter (h_rows s2),
                 h_tr := push_caveat (''Strength filter applied: \"'' @ strengthFilter @ ''\".'')
                           (h_tr s2)\<rparr>
         else s2)"

definition dedupe_stage :: "string \<Rightarrow> hstate \<Rightarrow> hstate" where
  "dedupe_stage dedupe s =
     (if dedupe = ''chain'' \<or> dedupe = ''pharmacy''
      then s\<lparr>h_rows := dedupe_rows (keyFn dedupe) (h_rows s),
             h_tr := push_caveat
                       (''Deduped by '' @ dedupe @ ''; kept the cheapest per '' @ dedupe @ ''.'')
                       (h_tr s)\<rparr>
      else s)"

text \<open>A query flag that is on unless it says \<^verbatim>\<open>false\<close> (lines 377-379).\<close>

definition flag_default_on :: "platform \<Rightarrow> string option \<Rightarrow> bool" where
  "flag_default_on pf p = (toLowerCase pf (or_str p ''true'') \<noteq> ''false'')"

text \<open>
  Lines 501-625, run once the baseline is attached: the remaining providers, the
  filters, dedupe, sort and limit, the summary and the response.
\<close>

definition GET_rest ::
  "world \<Rightarrow> config \<Rightarrow> request \<Rightarrow> RateResult \<Rightarrow> string \<Rightarrow> hstate \<Rightarrow> Response \<times> hstate" where
  "GET_rest w cfg req rl normalizedDrug s =
     (let rawDrug = trim (js w) (or_str (q_drug req) []);
          zipV = trim (js w) (or_str (q_zip req) []);
          q = clamp_param (q_qty req) 30 1 5000;
          limit = clamp_param (q_limit req) 25 1 50;
          includeMock = flag_default_on (js w) (q_includeMock req);
          includeNadac = flag_default_on (js w) (q_includeNadac req);
          includeRxNorm = flag_default_on (js w) (q_includeRxNorm req);
          includeFlorida = (toLowerCase (js w) (or_str (q_includeFlorida req) ''false'') = ''true'');
          flCounty = trim (js w) (or_str (q_flCounty req) []);
          includeGoodRxParam = toLowerCase (js w) (or_str (q_includeGoodRx req) []);
          includeGoodRx = (includeGoodRxParam = ''true''
                           \<or> (includeGoodRxParam \<noteq> ''false'' \<and> truthy (GOODRX_API_KEY cfg)));
          chainParam = toLowerCase (js w) (or_str (q_chains req) []);
          privacyV = toLowerCase (js w) (or_str (q_privacy req) ''on'');
          dedupe = toLowerCase (js w) (or_str (q_dedupe req) ''none'');
          formFilter = toLowerCase (js w) (or_str (q_form req) []);
          strengthFilter = toLowerCase (js w) (or_str (q_strength req) []);
          s3 = florida_stage w cfg includeFlorida normalizedDrug q flCounty limit s;
          s4 = mock_stage (js w) includeMock normalizedDrug zipV q s3;
          s5 = filter_stage (js w) chainParam formFilter strengthFilter s4;
          s6 = dedupe_stage dedupe s5;
          res = sort_and_limit (h_rows s6) limit;
          opt = (\<lambda>x. if x \<noteq> [] then Some x else None)
      in (\<lparr>status = 200,
           body = \<lparr>ok = True, error_msg = None, count_field = length res,
                   privacy = Some privacyV,
                   inputs = Some
                     \<lparr>i_drug = rawDrug, i_normalizedDrug = normalizedDrug, i_zip = opt zipV,
                      i_qty = q, i_limit = limit, i_includeGoodRx = includeGoodRx,
                      i_includeNadac = includeNadac, i_includeMock = includeMock,
                      i_includeRxNorm = includeRxNorm, i_includeFlorida = includeFlorida,
                      i_flCounty = opt flCounty, i_chains = opt chainParam, i_dedupe = dedupe,
                      i_form = opt formFilter, i_strength = opt strengthFilter\<rparr>,
                   results = res,
                   groupSummary = groupSummary_of res,
                   transparency = Some (h_tr s6)\<rparr>,
           hdr_privacy = Some privacyV,
           hdr_limit = Some (RATE_MAX cfg),
           hdr_remaining = Some (max 0 (remaining rl)),
           hdr_reset = Some (resetAtOut rl)\<rparr>,
          s6))"

text \<open>
  \<^verbatim>\<open>GET\<close>. The result is the response, or the exception that leaves the handler, with
  the two process-wide maps and the upstream requests made. At line 490 the handler
  evaluates the identifier \<^verbatim>\<open>nadacRows\<close> in the scope of the function body, where the
  array variable declared is \<^verbatim>\<open>rows\<close> (and, at module level, \<^verbatim>\<open>MOCK\<close>).
\<close>

definition GET ::
  "world \<Rightarrow> config \<Rightarrow> request \<Rightarrow> rl_map \<Rightarrow> (url, payload) cache
     \<Rightarrow> (js_error + Response) \<times> rl_map \<times> (url, payload) cache \<times> url list" where
  "GET w cfg req rl0 c0 =
     (let rawDrug = trim (js w) (or_str (q_drug req) []);
          zipV = trim (js w) (or_str (q_zip req) []);
          q = clamp_param (q_qty req) 30 1 5000;
          limit = clamp_param (q_limit req) 25 1 50;
          includeNadac = flag_default_on (js w) (q_includeNadac req);
          includeRxNorm = flag_default_on (js w) (q_includeRxNorm req);
          includeGoodRxParam = toLowerCase (js w) (or_str (q_includeGoodRx req) []);
          includeGoodRx = (includeGoodRxParam = ''true''
                           \<or> (includeGoodRxParam \<noteq> ''false'' \<and> truthy (GOODRX_API_KEY cfg)));
          privacyV = toLowerCase (js w) (or_str (q_privacy req) ''on'')
      in if rawDrug = []
         then (Inr (error_response 400
                      ''Missing required query param: drug (e.g., ?drug=atorvastatin)''),
               rl0, c0, [])
         else if zipV \<noteq> [] \<and> \<not> isFiveDigitZip zipV
         then (Inr (error_response 400 ''Invalid zip. Use 5 digits, e.g., 85001''), rl0, c0, [])
         else
           (let clientKey = getClientKey (js w) req
            in case rateLimit rl0 (now_rl w) clientKey (RATE_MAX cfg) (RATE_WINDOW_MS cfg) of
                 (rl, rl1) \<Rightarrow>
                   if \<not> allowed rl
                   then (Inr ((error_response 429
                                 ''Rate limit exceeded. Please try again shortly.'')
                              \<lparr>hdr_privacy := Some privacyV, hdr_limit := Some (RATE_MAX cfg),
                               hdr_remaining := Some 0, hdr_reset := Some (resetAtOut rl)\<rparr>),
                         rl1, c0, [])
                   else
                     (case resolve_stage w cfg c0 includeRxNorm rawDrug of
                        ((normalizedDrug, rxnorm), c1, calls1) \<Rightarrow>
                          (let tr0 = \<lparr>datasets = [], caveats = [], attempted = [],
                                      resolution =
                                        (case rxnorm of
                                           None \<Rightarrow> None
                                         | Some rx \<Rightarrow>
                                             Some \<lparr>res_rxcui = rxcui rx,
                                                   canonicalName = rx_name rx,
                                                   ndcCount = length (ndcs rx),
                                                   res_sourceUrl = resolutionSourceUrl rx,
                                                   res_ndcsSourceUrl = ndcsSourceUrl rx\<rparr>),
                                      debug = (if FL_TEST_REL cfg \<noteq> [] then Some (FL_TEST_REL cfg)
                                               else None,
                                               if FL_TEMPLATE cfg \<noteq> [] then Some (FL_TEMPLATE cfg)
                                               else None),
                                      nadacBaseline = None, florida = None\<rparr>;
                               s0 = \<lparr>h_rows = [], h_tr = tr0, h_rl = rl1, h_cache = c1,
                                     h_calls = calls1\<rparr>;
                               s1 = goodrx_stage w cfg includeGoodRx clientKey normalizedDrug q
                                      zipV limit s0;
                               s2 = nadac_stage w cfg includeNadac normalizedDrug q limit s1
                           in case resolve_identifier [(''rows'', h_rows s2), (''MOCK'', map fst MOCK)]
                                     ''nadacRows'' of
                                Inl e \<Rightarrow> (Inl e, h_rl s2, h_cache s2, h_calls s2)
                              | Inr nadacRows \<Rightarrow>
                                  (case GET_rest w cfg req rl normalizedDrug
                                          (s2\<lparr>h_tr := attach_baseline nadacRows (h_tr s2)\<rparr>) of
                                     (resp, s7) \<Rightarrow>
                                       (Inr resp, h_rl s7, h_cache s7, h_calls s7))))))"

subsection \<open>Auxiliary notions for the statements\<close>

text \<open>
  What the loop of lines 559-563 does to the row picked for one key: the first row is
  taken, a later one replaces it only when its total compares strictly less.
\<close>

definition keep :: "PriceRow option \<Rightarrow> PriceRow \<Rightarrow> PriceRow option" where
  "keep prev r =
     (case prev of
        None \<Rightarrow> Some r
      | Some p \<Rightarrow> if js_lt (totalPrice r) (totalPrice p) then Some r else Some p)"

text \<open>The invariant of \<^verbatim>\<open>picked\<close>: one entry for a key, filed under the key of its row.\<close>

definition picked_ok :: "(PriceRow \<Rightarrow> string) \<Rightarrow> (string \<times> PriceRow) list \<Rightarrow> bool" where
  "picked_ok kf picked = (distinct (map fst picked) \<and> list_all (\<lambda>(k, r). kf r = k) picked)"


subsection \<open>Concrete inputs\<close>

text \<open>
  A platform for texts whose characters are the code units \<^verbatim>\<open>U+0000\<close> to \<^verbatim>\<open>U+00FF\<close>, which
  is what a \<^typ>\<open>string\<close> holds. On these \<^verbatim>\<open>toLowerCase\<close> maps the letters \<^verbatim>\<open>A-Z\<close> and the
  capital letters of Latin-1 (\<^verbatim>\<open>U+00C0\<close> to \<^verbatim>\<open>U+00DE\<close> without the sign \<^verbatim>\<open>U+00D7\<close>) to the
  letter 32 places on, and \<^verbatim>\<open>trim\<close> strips tab, line feed, vertical tab, form feed,
  carriage return, space and the no-break space \<^verbatim>\<open>U+00A0\<close> from both ends. \<^verbatim>\<open>Number\<close> is
  given on the two numerals that occur below and is \<^verbatim>\<open>NaN\<close> on every other text, as it
  is on the cell texts of the sample that are not numerals.
\<close>

definition latin1_toLowerCase_char :: "char \<Rightarrow> char" where
  "latin1_toLowerCase_char c =
     (let n = (of_char c :: nat)
      in if (65 \<le> n \<and> n \<le> 90) \<or> (192 \<le> n \<and> n \<le> 222 \<and> n \<noteq> 215) then char_of (n + 32)
         else c)"

definition latin1_toLowerCase :: "string \<Rightarrow> string" where
  "latin1_toLowerCase s = map latin1_toLowerCase_char s"

definition is_white_space :: "char \<Rightarrow> bool" where
  "is_white_space c = (let n = (of_char c :: nat) in n = 32 \<or> n = 160 \<or> (9 \<le> n \<and> n \<le> 13))"

definition latin1_trim :: "string \<Rightarrow> string" where
  "latin1_trim s = rev (dropWhile is_white_space (rev (dropWhile is_white_space s)))"

definition demo_Number :: "string \<Rightarrow> jsnum" where
  "demo_Number s = (if s = ''30'' then Fin 30 else if s = ''12.50'' then Fin (25 / 2) else NaN)"

definition demo_platform :: platform where
  "demo_platform =
     \<lparr>trim = latin1_trim, toLowerCase = latin1_toLowerCase, Number_of = demo_Number\<rparr>"

text \<open>
  A small world on which the statements below are run: the NADAC service answers with
  one record, the RxNav lookups find nothing, the bundled Florida sample has one row, and
  no GoodRx credential is configured.
\<close>

definition demo_item :: NadacItem where
  "demo_item =
     \<lparr>n_ndc = Some ''00093104801'', n_generic_name = Some ''Metformin HCl 500 MG Tablet'',
      n_nadac_per_unit = Fin (1234 / 100000), n_pricing_unit = Some ''EA'',
      n_package_size = None, n_effective_date = Some ''2024-12-18''\<rparr>"

definition demo_http :: "url \<Rightarrow> payload http_result" where
  "demo_http u =
     (case u of
        NadacUrl d l \<Rightarrow> Body (P_Nadac [demo_item])
      | RxFindUrl d n \<Rightarrow> Body P_Other
      | _ \<Rightarrow> NotOk)"

definition demo_sheet :: sheet where
  "demo_sheet = [[(''Pharmacy'', ''Unknown''), (''Drug Name'', ''Metformin''), (''Price'', ''12.50'')]]"

definition demo_world :: world where
  "demo_world =
     \<lparr>http = demo_http, clock = (\<lambda>u. (1000, 1001)), now_rl = 1000, now_grl = 1000,
      fl_http = (\<lambda>u. NotOk),
      fl_file = (\<lambda>p. if p = ''florida-sample.csv'' then Some demo_sheet else None),
      js = demo_platform\<rparr>"

text \<open>The defaults of lines 12-21, with no GoodRx key and no Florida source configured.\<close>

definition demo_config :: config where
  "demo_config =
     \<lparr>RATE_WINDOW_MS = 60000, RATE_MAX = 30, GOODRX_RATE_MAX = 8,
      CACHE_TTL_RXNORM_MS = 86400000, CACHE_TTL_NADAC_MS = 900000, CACHE_TTL_GOODRX_MS = 60000,
      FL_TEMPLATE = [], FL_TEST_REL = [], GOODRX_API_KEY = None\<rparr>"

text \<open>The request \<^verbatim>\<open>?drug=Metformin&qty=60\<close> with no headers.\<close>

definition demo_request :: request where
  "demo_request =
     \<lparr>q_drug = Some ''Metformin'', q_zip = None, q_qty = Some (Fin 60), q_limit = None,
      q_includeMock = None, q_includeNadac = None, q_includeRxNorm = None,
      q_includeFlorida = None, q_flCounty = None, q_includeGoodRx = None, q_chains = None,
      q_privacy = None, q_dedupe = None, q_form = None, q_strength = None,
      x_forwarded_for = None, x_real_ip = None\<rparr>"

text \<open>An empty handler state.\<close>

definition demo_state :: hstate where
  "demo_state =
     \<lparr>h_rows = [],
      h_tr = \<lparr>datasets = [], caveats = [], attempted = [], resolution = None,
              debug = (None, None), nadacBaseline = None, florida = None\<rparr>,
      h_rl = Map.empty, h_cache = Map.empty, h_calls = []\<rparr>"




text \<open>The request \<^verbatim>\<open>?drug=Metformin&qty=60&includeGoodRx=true\<close>.\<close>

definition goodrx_request :: request where
  "goodrx_request = demo_request\<lparr>q_includeGoodRx := Some ''true''\<rparr>"

text \<open>A client whose eight GoodRx calls of the running window are used up.\<close>

definition goodrx_spent :: rl_map where
  "goodrx_spent = [''ip:anon|goodrx'' \<mapsto> \<lparr>count = 8, resetAt = 61000\<rparr>]"

text \<open>The request \<^verbatim>\<open>?drug=Metformin&qty=60&zip=%2085001\<close>: a zip with a blank in front.\<close>

definition padded_zip_request :: request where
  "padded_zip_request = demo_request\<lparr>q_zip := Some '' 85001''\<rparr>"


text \<open>
  Rows as the providers build them for \<^verbatim>\<open>metformin\<close> at quantity 30: one NADAC row, the
  row of the Florida sample, and the rows of the fixture.
\<close>

definition demo_rows :: "PriceRow list" where
  "demo_rows =
     map (nadac_row demo_platform (NadacUrl ''metformin'' (Fin 25)) (Fin 30)) [demo_item]
     @ fst (parseFloridaWorkbook demo_platform demo_sheet (Literal ''/florida-sample.csv'')
              ''metformin'' (Fin 30) (Fin 25))
     @ mockFiltered demo_platform ''metformin'' [] (Fin 30)"

text \<open>Two NADAC records of one price, as the service lists them for two package codes.\<close>

definition demo_tie_rows :: "PriceRow list" where
  "demo_tie_rows =
     map (nadac_row demo_platform (NadacUrl ''metformin'' (Fin 25)) (Fin 30))
       [demo_item, demo_item\<lparr>n_ndc := Some ''00093104810''\<rparr>]"

section \<open>Verified properties\<close>

subsection \<open>Lemmas: rate limiter\<close>

lemma rateLimit_fresh:
  "window_over rl key now \<Longrightarrow>
   rateLimit rl now key mx w =
     (\<lparr>allowed = True, remaining = mx - 1, resetAtOut = now + w\<rparr>,
      rl(key \<mapsto> \<lparr>count = 1, resetAt = now + w\<rparr>))"
  by (simp add: rateLimit_def window_over_def split: option.splits)

lemma rateLimit_calls_in_window:
  "rl key = Some \<lparr>count = c, resetAt = R\<rparr> \<Longrightarrow> \<forall>t\<in>set ts. t < R \<Longrightarrow> c + int (length ts) \<le> mx \<Longrightarrow>
   rateLimit_calls rl key mx w ts =
     (map (\<lambda>i. \<lparr>allowed = True, remaining = mx - (c + 1 + int i), resetAtOut = R\<rparr>) [0..<length ts],
      rl(key \<mapsto> \<lparr>count = c + int (length ts), resetAt = R\<rparr>))"
proof (induction ts arbitrary: rl c)
  case Nil
  then show ?case by (simp add: fun_upd_idem)
next
  case (Cons t ts)
  have step: "rateLimit rl t key mx w =
      (\<lparr>allowed = True, remaining = mx - (c + 1), resetAtOut = R\<rparr>,
       rl(key \<mapsto> \<lparr>count = c + 1, resetAt = R\<rparr>))"
    using Cons.prems by (simp add: rateLimit_def)
  let ?rl = "rl(key \<mapsto> \<lparr>count = c + 1, resetAt = R\<rparr>)"
  have "rateLimit_calls ?rl key mx w ts =
     (map (\<lambda>i. \<lparr>allowed = True, remaining = mx - (c + 1 + 1 + int i), resetAtOut = R\<rparr>) [0..<length ts],
      ?rl(key \<mapsto> \<lparr>count = c + 1 + int (length ts), resetAt = R\<rparr>))"
    using Cons.prems by (intro Cons.IH) auto
  then show ?case
    by (simp add: step map_upt_Suc algebra_simps del: upt_Suc) (simp add: fun_eq_iff)
qed

lemma rateLimit_calls_append:
  "rateLimit_calls rl key mx w (xs @ ys) =
     (case rateLimit_calls rl key mx w xs of
        (rs, rl') \<Rightarrow> (case rateLimit_calls rl' key mx w ys of (rs', rl'') \<Rightarrow> (rs @ rs', rl'')))"
  by (induction xs arbitrary: rl) (auto split: prod.splits)

lemma rateLimit_full:
  "rl key = Some \<lparr>count = c, resetAt = R\<rparr> \<Longrightarrow> t < R \<Longrightarrow> mx \<le> c \<Longrightarrow>
   rateLimit rl t key mx w = (\<lparr>allowed = False, remaining = 0, resetAtOut = R\<rparr>, rl)"
  by (simp add: rateLimit_def)

subsection \<open>Lemmas: provider cache\<close>

lemma entry_of_bucket_set:
  "entry_of (bucket_set c name url e) name' url' =
     (if name' = name \<and> url' = url then Some e else entry_of c name' url')"
  by (auto simp: entry_of_def bucket_set_def bucket_def split: option.splits)

lemma entry_of_bucket: "entry_of (snd (bucket c name)) name' url' = entry_of c name' url'"
  by (auto simp: entry_of_def bucket_def split: option.splits)

lemma fetch_upstream_calls: "snd (snd (fetch_upstream up t c url ttl b)) = [url]"
  by (simp add: fetch_upstream_def split: http_result.splits)

lemma fetchJSONCached_hit:
  "0 < ttl \<Longrightarrow> entry_of c b url = Some e \<Longrightarrow> now < expires e \<Longrightarrow>
   fetchJSONCached up now now' c url ttl b = (Inr (Some (data e)), c, [])"
  by (auto simp: fetchJSONCached_def entry_of_def bucket_def split: option.splits)

lemma fetchJSONCached_miss:
  "ttl \<le> 0 \<or> (case entry_of c b url of None \<Rightarrow> True | Some e \<Rightarrow> expires e \<le> now) \<Longrightarrow>
   fetchJSONCached up now now' c url ttl b =
     fetch_upstream up now' (if 0 < ttl then snd (bucket c b) else c) url ttl b"
  by (auto simp: fetchJSONCached_def entry_of_def bucket_def split: option.splits)

subsection \<open>Lemmas: order, sort and dedupe\<close>

lemma js_le_refl: "a \<noteq> NaN \<Longrightarrow> js_le a a"
  by (cases a) auto

lemma js_le_trans: "js_le a b \<Longrightarrow> js_le b c \<Longrightarrow> js_le a c"
  by (cases a; cases b; cases c) auto

lemma js_lt_imp_le: "js_lt a b \<Longrightarrow> js_le a b"
  by (cases a; cases b) auto

lemma not_js_lt_imp_le: "\<not> js_lt a b \<Longrightarrow> a \<noteq> NaN \<Longrightarrow> b \<noteq> NaN \<Longrightarrow> js_le b a"
  by (cases a; cases b) auto

lemma js_le_not_lt: "js_le a b \<Longrightarrow> \<not> js_lt b a"
  by (cases a; cases b) auto

lemma js_le_neq_lt: "js_le a b \<Longrightarrow> a \<noteq> b \<Longrightarrow> js_lt a b"
  by (cases a; cases b) auto

lemma js_lt_neq: "js_lt a b \<Longrightarrow> a \<noteq> b"
  by (cases a; cases b) auto

lemma sub_pos_iff: "js_lt (Fin 0) (js_sub a b) = js_lt b a"
  by (cases a; cases b) auto

lemma set_sort_insert: "set (sort_insert cmp x ys) = insert x (set ys)"
  by (induction ys) auto

lemma set_js_sort: "set (js_sort cmp xs) = set xs"
  by (induction xs) (auto simp: js_sort_def set_sort_insert)

lemma length_sort_insert: "length (sort_insert cmp x ys) = Suc (length ys)"
  by (induction ys) auto

lemma length_js_sort: "length (js_sort cmp xs) = length xs"
  by (induction xs) (auto simp: js_sort_def length_sort_insert)

lemma sorted_sort_insert:
  "totalPrice x \<noteq> NaN \<Longrightarrow> \<forall>y\<in>set ys. totalPrice y \<noteq> NaN \<Longrightarrow>
   sorted_wrt (\<lambda>a b. js_le (totalPrice a) (totalPrice b)) ys \<Longrightarrow>
   sorted_wrt (\<lambda>a b. js_le (totalPrice a) (totalPrice b)) (sort_insert by_totalPrice x ys)"
proof (induction ys)
  case Nil
  then show ?case by simp
next
  case (Cons y ys)
  show ?case
  proof (cases "js_lt (totalPrice y) (totalPrice x)")
    case True
    then have "js_le (totalPrice y) (totalPrice x)" by (rule js_lt_imp_le)
    with Cons True show ?thesis
      by (auto simp: by_totalPrice_def sub_pos_iff set_sort_insert)
  next
    case False
    then have xy: "js_le (totalPrice x) (totalPrice y)"
      using Cons.prems by (intro not_js_lt_imp_le) auto
    have "\<forall>z\<in>set ys. js_le (totalPrice x) (totalPrice z)"
      using Cons.prems(3) xy by (auto intro: js_le_trans)
    with Cons.prems False xy show ?thesis
      by (simp add: by_totalPrice_def sub_pos_iff)
  qed
qed

lemma sorted_js_sort:
  "\<forall>r\<in>set rows. totalPrice r \<noteq> NaN \<Longrightarrow>
   sorted_wrt (\<lambda>a b. js_le (totalPrice a) (totalPrice b)) (js_sort by_totalPrice rows)"
proof (induction rows)
  case Nil
  then show ?case by (simp add: js_sort_def)
next
  case (Cons r rows)
  then have "sorted_wrt (\<lambda>a b. js_le (totalPrice a) (totalPrice b)) (js_sort by_totalPrice rows)"
    by simp
  moreover have "js_sort by_totalPrice (r # rows) = sort_insert by_totalPrice r (js_sort by_totalPrice rows)"
    by (simp add: js_sort_def)
  ultimately show ?case
    using Cons.prems by (simp add: sorted_sort_insert set_js_sort)
qed

lemma filter_sort_insert:
  "filter (\<lambda>r. totalPrice r = t) (sort_insert by_totalPrice x ys) =
     (if totalPrice x = t then x # filter (\<lambda>r. totalPrice r = t) ys
      else filter (\<lambda>r. totalPrice r = t) ys)"
proof (induction ys)
  case Nil
  then show ?case by simp
next
  case (Cons y ys)
  show ?case
  proof (cases "js_lt (totalPrice y) (totalPrice x)")
    case True
    then have "totalPrice y \<noteq> totalPrice x" by (rule js_lt_neq)
    with True Cons show ?thesis
      by (auto simp: by_totalPrice_def sub_pos_iff)
  next
    case False
    then show ?thesis by (simp add: by_totalPrice_def sub_pos_iff)
  qed
qed

lemma filter_js_sort:
  "filter (\<lambda>r. totalPrice r = t) (js_sort by_totalPrice rows) = filter (\<lambda>r. totalPrice r = t) rows"
  by (induction rows) (simp_all add: js_sort_def filter_sort_insert)

lemma slice0_take: "\<exists>n. slice0 xs e = take n xs"
proof (cases e)
  case PosInf
  then have "slice0 xs e = take (length xs) xs" by (simp add: slice0_def)
  then show ?thesis ..
next
  case NaN
  then have "slice0 xs e = take 0 xs" by (simp add: slice0_def)
  then show ?thesis ..
next
  case NegInf
  then have "slice0 xs e = take 0 xs" by (simp add: slice0_def)
  then show ?thesis ..
next
  case (Fin q)
  then show ?thesis by (auto simp: slice0_def Let_def)
qed

lemma prefix_filter_take: "prefix (filter P (take n xs)) (filter P xs)"
proof -
  have "filter P xs = filter P (take n xs) @ filter P (drop n xs)"
    by (metis append_take_drop_id filter_append)
  then show ?thesis by (simp add: prefix_def)
qed

lemma sorted_wrt_take: "sorted_wrt R xs \<Longrightarrow> sorted_wrt R (take n xs)"
  by (metis append_take_drop_id sorted_wrt_append)

lemma clamp_param_cases:
  "clamp_param p d lo hi = NaN \<or> (\<exists>l. clamp_param p d lo hi = Fin l \<and> l \<le> hi \<and> (lo \<le> hi \<longrightarrow> lo \<le> l))"
  by (cases p; (cases "the p")?) (auto simp: clamp_param_def Math_min_def Math_max_def split: option.splits jsnum.splits)

lemma length_slice0_Fin: "0 \<le> l \<Longrightarrow> rat_of_nat (length (slice0 xs (Fin l))) \<le> l"
proof -
  assume l: "0 \<le> l"
  have "slice0 xs (Fin l) = take (nat \<lfloor>l\<rfloor>) xs"
    using l by (simp add: slice0_def)
  moreover have "rat_of_nat (nat \<lfloor>l\<rfloor>) \<le> l"
    using l by (metis floor_le_zero linorder_not_less  of_int_floor_le of_nat_nat zero_le_floor)
  ultimately show ?thesis
    by (smt (verit) length_take min.cobounded2 of_nat_mono order_trans)
qed

lemma map_of_map_set: "map_of (map_set m k v) = (map_of m)(k \<mapsto> v)"
  by (induction m) (auto simp: fun_eq_iff)

lemma keys_map_set:
  "map fst (map_set m k v) = (if k \<in> set (map fst m) then map fst m else map fst m @ [k])"
  by (induction m) (auto simp: image_iff split: if_splits)

lemma set_map_set: "set (map_set m k v) \<subseteq> insert (k, v) (set m)"
  by (induction m) (auto split: if_splits)

lemma map_of_pick_cheapest:
  "map_of (pick_cheapest kf picked r) k =
     (if kf r = k then keep (map_of picked k) r else map_of picked k)"
  by (auto simp: pick_cheapest_def keep_def Let_def map_of_map_set split: option.splits)

lemma map_of_foldl_pick:
  "map_of (foldl (pick_cheapest kf) picked rows) k =
     foldl keep (map_of picked k) (filter (\<lambda>r. kf r = k) rows)"
  by (induction rows arbitrary: picked) (simp_all add: map_of_pick_cheapest)

lemma picked_ok_map_set:
  "picked_ok kf picked \<Longrightarrow> picked_ok kf (map_set picked (kf r) r)"
proof -
  assume ok: "picked_ok kf picked"
  have d: "distinct (map fst (map_set picked (kf r) r))"
    using ok by (simp add: picked_ok_def keys_map_set)
  have "set (map_set picked (kf r) r) \<subseteq> insert (kf r, r) (set picked)"
    by (rule set_map_set)
  then have "list_all (\<lambda>(k, r). kf r = k) (map_set picked (kf r) r)"
    using ok by (auto simp: picked_ok_def list_all_iff)
  with d show ?thesis by (simp add: picked_ok_def)
qed

lemma picked_ok_step: "picked_ok kf picked \<Longrightarrow> picked_ok kf (pick_cheapest kf picked r)"
  by (auto simp: pick_cheapest_def Let_def picked_ok_map_set split: option.splits)

lemma picked_ok_foldl: "picked_ok kf picked \<Longrightarrow> picked_ok kf (foldl (pick_cheapest kf) picked rows)"
  by (induction rows arbitrary: picked) (simp_all add: picked_ok_step)

lemma filter_key_picked:
  "picked_ok kf picked \<Longrightarrow>
   filter (\<lambda>r. kf r = k) (map snd picked) = (case map_of picked k of None \<Rightarrow> [] | Some r \<Rightarrow> [r])"
proof (induction picked)
  case Nil
  then show ?case by simp
next
  case (Cons p picked)
  obtain k' r' where p: "p = (k', r')" by (cases p)
  from Cons.prems p have ok: "picked_ok kf picked" and kr: "kf r' = k'" and nin: "k' \<notin> fst ` set picked"
    by (auto simp: picked_ok_def)
  have none: "map_of picked k' = None"
    using nin by (simp add: map_of_eq_None_iff)
  show ?case
  proof (cases "k' = k")
    case True
    with none have "filter (\<lambda>r. kf r = k) (map snd picked) = []"
      using Cons.IH [OF ok] by simp
    with True p kr show ?thesis by simp
  next
    case False
    with p kr Cons.IH [OF ok] show ?thesis by simp
  qed
qed

lemma dedupe_rows_key:
  "filter (\<lambda>r. kf r = k) (dedupe_rows kf rows) =
     (case foldl keep None (filter (\<lambda>r. kf r = k) rows) of None \<Rightarrow> [] | Some r \<Rightarrow> [r])"
proof -
  have ok: "picked_ok kf (foldl (pick_cheapest kf) [] rows)"
    by (rule picked_ok_foldl) (simp add: picked_ok_def)
  show ?thesis
    unfolding dedupe_rows_def filter_key_picked [OF ok] map_of_foldl_pick by simp
qed

lemma keep_fixed:
  "\<forall>r\<in>set g. js_le (totalPrice p) (totalPrice r) \<Longrightarrow> foldl keep (Some p) g = Some p"
  by (induction g) (auto simp: keep_def dest: js_le_not_lt)

lemma keep_first_min:
  "\<forall>r\<in>set g. js_le t (totalPrice r) \<Longrightarrow> js_le t (totalPrice p) \<Longrightarrow> totalPrice p \<noteq> t \<Longrightarrow>
   List.find (\<lambda>r. totalPrice r = t) g = Some r0 \<Longrightarrow> foldl keep (Some p) g = Some r0"
proof (induction g arbitrary: p)
  case Nil
  then show ?case by simp
next
  case (Cons r g)
  show ?case
  proof (cases "totalPrice r = t")
    case True
    then have r0: "r0 = r" using Cons.prems(4) by simp
    have "js_lt (totalPrice r) (totalPrice p)"
      using Cons.prems(2,3) True by (auto intro: js_le_neq_lt)
    then have "keep (Some p) r = Some r" by (simp add: keep_def)
    moreover have "foldl keep (Some r) g = Some r"
      using Cons.prems(1) True by (intro keep_fixed) auto
    ultimately show ?thesis using r0 by simp
  next
    case False
    then have f: "List.find (\<lambda>r. totalPrice r = t) g = Some r0" using Cons.prems(4) by simp
    show ?thesis
    proof (cases "js_lt (totalPrice r) (totalPrice p)")
      case True
      then have "keep (Some p) r = Some r" by (simp add: keep_def)
      moreover have "foldl keep (Some r) g = Some r0"
        using Cons.prems(1) False f by (intro Cons.IH) auto
      ultimately show ?thesis by simp
    next
      case False
      then have "keep (Some p) r = Some p" by (simp add: keep_def)
      moreover have "foldl keep (Some p) g = Some r0"
        using Cons.prems f by (intro Cons.IH) auto
      ultimately show ?thesis by simp
    qed
  qed
qed

lemma keep_None_first_min:
  assumes "\<forall>r\<in>set g. js_le t (totalPrice r)" and "List.find (\<lambda>r. totalPrice r = t) g = Some r0"
  shows "foldl keep None g = Some r0"
proof (cases g)
  case Nil
  with assms show ?thesis by simp
next
  case (Cons r g')
  have k: "keep None r = Some r" by (simp add: keep_def)
  show ?thesis
  proof (cases "totalPrice r = t")
    case True
    then have "r0 = r" using assms(2) Cons by simp
    moreover have "foldl keep (Some r) g' = Some r"
      using assms(1) Cons True by (intro keep_fixed) auto
    ultimately show ?thesis using Cons k by simp
  next
    case False
    then have "foldl keep (Some r) g' = Some r0"
      using assms Cons by (intro keep_first_min [where t = t]) auto
    then show ?thesis using Cons k by simp
  qed
qed

lemma keep_min:
  "\<forall>r\<in>set (p # g). totalPrice r \<noteq> NaN \<Longrightarrow>
   \<exists>r0. foldl keep (Some p) g = Some r0 \<and> r0 \<in> set (p # g)
        \<and> (\<forall>r\<in>set (p # g). js_le (totalPrice r0) (totalPrice r))"
proof (induction g arbitrary: p rule: rev_induct)
  case Nil
  then show ?case by (simp add: js_le_refl)
next
  case (snoc r g)
  from snoc.prems have "\<forall>r\<in>set (p # g). totalPrice r \<noteq> NaN" by simp
  from snoc.IH [OF this] obtain r1 where
    r1: "foldl keep (Some p) g = Some r1" "r1 \<in> set (p # g)"
        "\<forall>x\<in>set (p # g). js_le (totalPrice r1) (totalPrice x)" by blast
  have nn: "totalPrice r \<noteq> NaN" "totalPrice r1 \<noteq> NaN" using snoc.prems r1(2) by auto
  show ?case
  proof (cases "js_lt (totalPrice r) (totalPrice r1)")
    case True
    then have le: "js_le (totalPrice r) (totalPrice r1)" by (rule js_lt_imp_le)
    have "foldl keep (Some p) (g @ [r]) = Some r" using r1(1) True by (simp add: keep_def)
    moreover have "\<forall>x\<in>set (p # g @ [r]). js_le (totalPrice r) (totalPrice x)"
      using r1(3) le nn by (auto intro: js_le_trans js_le_refl)
    ultimately show ?thesis by auto
  next
    case False
    then have le: "js_le (totalPrice r1) (totalPrice r)" using nn by (intro not_js_lt_imp_le)
    have "foldl keep (Some p) (g @ [r]) = Some r1" using r1(1) False by (simp add: keep_def)
    moreover have "\<forall>x\<in>set (p # g @ [r]). js_le (totalPrice r1) (totalPrice x)"
      using r1(3) le by auto
    ultimately show ?thesis using r1(2) by auto
  qed
qed

lemma keep_Some_mem: "\<exists>r0. foldl keep (Some p) g = Some r0 \<and> r0 \<in> set (p # g)"
proof (induction g rule: rev_induct)
  case Nil
  then show ?case by simp
next
  case (snoc r g)
  then obtain r1 where r1: "foldl keep (Some p) g = Some r1" "r1 \<in> set (p # g)" by blast
  have "keep (Some r1) r = Some r \<or> keep (Some r1) r = Some r1" by (simp add: keep_def)
  then show ?case using r1 by auto
qed

lemma keep_None_some: "g \<noteq> [] \<Longrightarrow> \<exists>r0. foldl keep None g = Some r0 \<and> r0 \<in> set g"
proof -
  assume "g \<noteq> []"
  then obtain r g' where g: "g = r # g'" by (cases g) auto
  from keep_Some_mem [of r g'] show ?thesis by (simp add: g keep_def)
qed

lemma keep_None_min:
  assumes "g \<noteq> []" and "\<forall>r\<in>set g. totalPrice r \<noteq> NaN"
  shows "\<exists>r0. foldl keep None g = Some r0 \<and> r0 \<in> set g \<and> (\<forall>r\<in>set g. js_le (totalPrice r0) (totalPrice r))"
proof -
  from assms(1) obtain r g' where g: "g = r # g'" by (cases g) auto
  from keep_min [of r g'] assms(2) g show ?thesis by (simp add: keep_def)
qed

lemma find_filter: "List.find P (filter Q xs) = List.find (\<lambda>x. Q x \<and> P x) xs"
  by (induction xs) auto

lemma keyFn_chain_truthy: "truthy (chain_field r) \<Longrightarrow> keyFn ''chain'' r = the (chain_field r)"
  by (cases "chain_field r") (auto simp: keyFn_def or_str_def or_else_def)

lemma keyFn_chain_unknown:
  "\<not> truthy (chain_field r) \<Longrightarrow> \<not> truthy (pharmacy r) \<Longrightarrow> keyFn ''chain'' r = ''unknown''"
  by (cases "pharmacy r") (auto simp: keyFn_def or_str_def or_else_def)

lemma filter_through: "(\<And>x. P x \<Longrightarrow> Q x) \<Longrightarrow> filter P xs = filter P (filter Q xs)"
  by (induction xs) auto

subsection \<open>Lemmas: providers and the stages of the handler\<close>

































lemma cache_miss_cong:
  "entry_of c' b u = entry_of c b u \<Longrightarrow> cache_miss c' b u ttl now = cache_miss c b u ttl now"
  by (simp add: cache_miss_def)



lemma rateLimit_refused:
  "\<not> allowed (fst (rateLimit rl now key mx w)) \<Longrightarrow>
   rateLimit rl now key mx w =
     (\<lparr>allowed = False, remaining = 0, resetAtOut = resetAt (the (rl key))\<rparr>, rl)"
  by (auto simp: rateLimit_def Let_def split: option.splits if_splits)






section \<open>The claims\<close>

subsection \<open>C4: the fixed window of the rate limiter\<close>

text \<open>
  Claim C4. A call for a key that has no record, or whose window is over, opens a fresh
  window with count 1 and is allowed. When a client then makes further calls inside that
  window, \<open>max + 1\<close> calls in all, the first \<open>max\<close> are allowed (with \<open>max - 1\<close>, ..., \<open>0\<close>
  remaining) and call \<open>max + 1\<close> is refused with 0 remaining and the reset time that the
  calls before it returned. (A limit below 1 is not meant: the first call of a window is
  always allowed.)
\<close>

theorem rateLimit_fixed_window:
  assumes fresh: "window_over rl key t0"
    and mx: "1 \<le> mx"
    and len: "int (length ts) = mx"
    and win: "list_all (\<lambda>t. t < t0 + w) ts"
  shows "rateLimit rl t0 key mx w =
           (\<lparr>allowed = True, remaining = mx - 1, resetAtOut = t0 + w\<rparr>,
            rl(key \<mapsto> \<lparr>count = 1, resetAt = t0 + w\<rparr>))
       \<and> fst (rateLimit_calls rl key mx w (t0 # ts)) =
           map (\<lambda>i. \<lparr>allowed = True, remaining = mx - 1 - int i, resetAtOut = t0 + w\<rparr>) [0..<nat mx]
           @ [\<lparr>allowed = False, remaining = 0, resetAtOut = t0 + w\<rparr>]"
proof -
  let ?R = "t0 + w"
  let ?rl1 = "rl(key \<mapsto> \<lparr>count = 1, resetAt = ?R\<rparr>)"
  have win': "\<forall>t\<in>set ts. t < t0 + w" using win by (simp add: list_all_iff)
  have first: "rateLimit rl t0 key mx w =
      (\<lparr>allowed = True, remaining = mx - 1, resetAtOut = ?R\<rparr>, ?rl1)"
    using fresh by (rule rateLimit_fresh)
  from len mx obtain us u where ts: "ts = us @ [u]"
    by (cases ts rule: rev_cases) auto
  have lus: "1 + int (length us) = mx" using len ts by simp
  have mid: "rateLimit_calls ?rl1 key mx w us =
     (map (\<lambda>i. \<lparr>allowed = True, remaining = mx - (1 + 1 + int i), resetAtOut = ?R\<rparr>) [0..<length us],
      ?rl1(key \<mapsto> \<lparr>count = 1 + int (length us), resetAt = ?R\<rparr>))"
    using win' ts lus by (intro rateLimit_calls_in_window) auto
  let ?rl2 = "rl(key \<mapsto> \<lparr>count = 1 + int (length us), resetAt = ?R\<rparr>)"
  have last: "rateLimit ?rl2 u key mx w = (\<lparr>allowed = False, remaining = 0, resetAtOut = ?R\<rparr>, ?rl2)"
    using win' ts lus by (intro rateLimit_full) auto
  have n: "nat mx = Suc (length us)" using lus by simp
  have "fst (rateLimit_calls rl key mx w (t0 # ts)) =
      \<lparr>allowed = True, remaining = mx - 1, resetAtOut = ?R\<rparr>
      # map (\<lambda>i. \<lparr>allowed = True, remaining = mx - (1 + 1 + int i), resetAtOut = ?R\<rparr>) [0..<length us]
      @ [\<lparr>allowed = False, remaining = 0, resetAtOut = ?R\<rparr>]"
    by (simp add: first ts rateLimit_calls_append mid last)
  also have "\<dots> = map (\<lambda>i. \<lparr>allowed = True, remaining = mx - 1 - int i, resetAtOut = ?R\<rparr>) [0..<nat mx]
           @ [\<lparr>allowed = False, remaining = 0, resetAtOut = ?R\<rparr>]"
    unfolding n by (simp add: map_upt_Suc algebra_simps del: upt_Suc)
  finally show ?thesis using first by simp
qed

text \<open>Three calls under a limit of 2 in a window of one minute.\<close>

theorem rateLimit_fixed_window_witness:
  "window_over Map.empty ''ip:anon'' 1000
   \<and> rateLimit Map.empty 1000 ''ip:anon'' 2 60000 =
       (\<lparr>allowed = True, remaining = 1, resetAtOut = 61000\<rparr>,
        [''ip:anon'' \<mapsto> \<lparr>count = 1, resetAt = 61000\<rparr>])
   \<and> fst (rateLimit_calls Map.empty ''ip:anon'' 2 60000 [1000, 1001, 60999]) =
       [\<lparr>allowed = True, remaining = 1, resetAtOut = 61000\<rparr>,
        \<lparr>allowed = True, remaining = 0, resetAtOut = 61000\<rparr>,
        \<lparr>allowed = False, remaining = 0, resetAtOut = 61000\<rparr>]"
proof -
  have a: "window_over Map.empty ''ip:anon'' 1000" by (simp add: window_over_def)
  have b: "(1::int) \<le> 2" by simp
  have c: "int (length [1001, 60999::int]) = 2" by simp
  have d: "list_all (\<lambda>t. t < 1000 + 60000) [1001, 60999::int]" by simp
  have e: "[0..<2] = [0, Suc 0]" by code_simp
  show ?thesis
    using rateLimit_fixed_window [OF a b c d] a by (simp add: e del: rateLimit_calls.simps)
qed

subsection \<open>C5: the provider cache within its TTL\<close>

text \<open>
  Claim C5. A cached fetch that finds an entry for the bucket and key which has not
  expired returns the stored value, leaves the cache as it is and makes no upstream
  request. When the entry is missing, or \<open>now \<ge> expires\<close>, or the TTL is not positive, one
  upstream request is made; a value fetched under a positive TTL is stored with expiry
  \<open>now' + ttl\<close>, so that the same call before that time returns it with no upstream
  request and a call from that time on goes upstream again; under a TTL that is not
  positive the cache is not touched; and when the upstream request yields no value, every
  entry, a stale one too, stays as it was.
\<close>

theorem fetchJSONCached_within_ttl:
  "(0 < ttl \<and> entry_of c b url = Some e \<and> now < expires e \<longrightarrow>
      fetchJSONCached up now now' c url ttl b = (Inr (Some (data e)), c, []))
 \<and> (cache_miss c b url ttl now \<longrightarrow>
      (case fetchJSONCached up now now' c url ttl b of
         (res, c', calls) \<Rightarrow>
           calls = [url]
         \<and> (case up url of
              Body d \<Rightarrow>
                res = Inr (Some d)
              \<and> (if 0 < ttl
                  then entry_of c' b url = Some \<lparr>expires = now' + ttl, data = d\<rparr>
                     \<and> (\<forall>t t'. t < now' + ttl \<longrightarrow>
                            fetchJSONCached up t t' c' url ttl b = (Inr (Some d), c', []))
                     \<and> (\<forall>t t'. now' + ttl \<le> t \<longrightarrow>
                            snd (snd (fetchJSONCached up t t' c' url ttl b)) = [url])
                  else c' = c)
            | _ \<Rightarrow> (\<forall>b' k. entry_of c' b' k = entry_of c b' k))))"
proof (intro conjI impI)
  assume "0 < ttl \<and> entry_of c b url = Some e \<and> now < expires e"
  then show "fetchJSONCached up now now' c url ttl b = (Inr (Some (data e)), c, [])"
    by (simp add: fetchJSONCached_hit)
next
  assume miss: "cache_miss c b url ttl now"
  let ?c1 = "if 0 < ttl then snd (bucket c b) else c"
  have eq: "fetchJSONCached up now now' c url ttl b = fetch_upstream up now' ?c1 url ttl b"
    using miss unfolding cache_miss_def by (rule fetchJSONCached_miss)
  have c1: "\<And>b' k. entry_of ?c1 b' k = entry_of c b' k"
    by (simp add: entry_of_bucket)
  show "case fetchJSONCached up now now' c url ttl b of
         (res, c', calls) \<Rightarrow>
           calls = [url]
         \<and> (case up url of
              Body d \<Rightarrow>
                res = Inr (Some d)
              \<and> (if 0 < ttl
                  then entry_of c' b url = Some \<lparr>expires = now' + ttl, data = d\<rparr>
                     \<and> (\<forall>t t'. t < now' + ttl \<longrightarrow>
                            fetchJSONCached up t t' c' url ttl b = (Inr (Some d), c', []))
                     \<and> (\<forall>t t'. now' + ttl \<le> t \<longrightarrow>
                            snd (snd (fetchJSONCached up t t' c' url ttl b)) = [url])
                  else c' = c)
            | _ \<Rightarrow> (\<forall>b' k. entry_of c' b' k = entry_of c b' k))"
  proof (cases "up url")
    case (Body d)
    show ?thesis
    proof (cases "0 < ttl")
      case True
      let ?c' = "bucket_set (snd (bucket c b)) b url \<lparr>expires = now' + ttl, data = d\<rparr>"
      have e': "entry_of ?c' b url = Some \<lparr>expires = now' + ttl, data = d\<rparr>"
        by (simp add: entry_of_bucket_set)
      have again: "\<And>t t'. t < now' + ttl \<Longrightarrow>
          fetchJSONCached up t t' ?c' url ttl b = (Inr (Some d), ?c', [])"
        using fetchJSONCached_hit [OF True e'] by simp
      have later: "\<And>t t'. now' + ttl \<le> t \<Longrightarrow>
          snd (snd (fetchJSONCached up t t' ?c' url ttl b)) = [url]"
        by (subst fetchJSONCached_miss) (simp_all add: e' fetch_upstream_calls)
      show ?thesis
        using True Body e' again later by (simp add: eq fetch_upstream_def)
    next
      case False
      then show ?thesis using Body by (simp add: eq fetch_upstream_def)
    qed
  qed (simp_all add: eq fetch_upstream_def c1)
qed

text \<open>A first fetch of a NADAC URL goes upstream; the same fetch four seconds later does not.\<close>

theorem fetchJSONCached_within_ttl_witness:
  "cache_miss (Map.empty :: (url, payload) cache) ''nadac'' (NadacUrl ''metformin'' (Fin 25))
     900000 1000
   \<and> fst (fetchJSONCached demo_http 1000 1001 Map.empty (NadacUrl ''metformin'' (Fin 25))
            900000 ''nadac'') = Inr (Some (P_Nadac [demo_item]))
   \<and> snd (snd (fetchJSONCached demo_http 1000 1001 Map.empty (NadacUrl ''metformin'' (Fin 25))
            900000 ''nadac'')) = [NadacUrl ''metformin'' (Fin 25)]
   \<and> fst (fetchJSONCached demo_http 5000 5001
            (fst (snd (fetchJSONCached demo_http 1000 1001 Map.empty
                         (NadacUrl ''metformin'' (Fin 25)) 900000 ''nadac'')))
            (NadacUrl ''metformin'' (Fin 25)) 900000 ''nadac'') = Inr (Some (P_Nadac [demo_item]))
   \<and> snd (snd (fetchJSONCached demo_http 5000 5001
            (fst (snd (fetchJSONCached demo_http 1000 1001 Map.empty
                         (NadacUrl ''metformin'' (Fin 25)) 900000 ''nadac'')))
            (NadacUrl ''metformin'' (Fin 25)) 900000 ''nadac'')) = []"
proof -
  let ?u = "NadacUrl ''metformin'' (Fin 25)"
  have m: "cache_miss (Map.empty :: (url, payload) cache) ''nadac'' ?u 900000 1000"
    by (simp add: cache_miss_def entry_of_def)
  have up: "demo_http ?u = Body (P_Nadac [demo_item])" by (simp add: demo_http_def)
  obtain res c' calls where
    r: "fetchJSONCached demo_http 1000 1001 Map.empty ?u 900000 ''nadac'' = (res, c', calls)"
    by (cases "fetchJSONCached demo_http 1000 1001 (Map.empty :: (url, payload) cache) ?u 900000 ''nadac''") auto
  from fetchJSONCached_within_ttl [of 900000 Map.empty "''nadac''" ?u undefined 1000 demo_http 1001] m
  have "calls = [?u] \<and> res = Inr (Some (P_Nadac [demo_item]))
      \<and> fetchJSONCached demo_http 5000 5001 c' ?u 900000 ''nadac'' = (Inr (Some (P_Nadac [demo_item])), c', [])"
    by (simp add: r up)
  with m r show ?thesis by simp
qed

subsection \<open>C2: the result list is sorted and limited\<close>

text \<open>
  The sort and the slice of lines 570-572, \<^verbatim>\<open>rows.sort(...).slice(0, limit)\<close> with \<open>limit\<close>
  the clamped parameter, on rows whose totals are numbers: every row's total is \<^verbatim>\<open><=\<close>
  that of each row after it, rows of equal total keep their order of input, and the list
  holds at most \<open>limit\<close> rows.
\<close>

lemma sort_and_limit_sorted:
  "(list_all (\<lambda>r. totalPrice r \<noteq> NaN) rows \<longrightarrow>
      sorted_wrt (\<lambda>a b. js_le (totalPrice a) (totalPrice b))
        (sort_and_limit rows (clamp_param p 25 1 50)))
 \<and> (\<forall>t. prefix (filter (\<lambda>r. totalPrice r = t) (sort_and_limit rows (clamp_param p 25 1 50)))
             (filter (\<lambda>r. totalPrice r = t) rows))
 \<and> (case clamp_param p 25 1 50 of
       Fin l \<Rightarrow> rat_of_nat (length (sort_and_limit rows (clamp_param p 25 1 50))) \<le> l \<and> l \<le> 50
     | _ \<Rightarrow> sort_and_limit rows (clamp_param p 25 1 50) = [])"
proof (intro conjI impI allI)
  let ?lim = "clamp_param p 25 1 50"
  obtain n where n: "sort_and_limit rows ?lim = take n (js_sort by_totalPrice rows)"
    unfolding sort_and_limit_def using slice0_take by blast
  {
    assume "list_all (\<lambda>r. totalPrice r \<noteq> NaN) rows"
    then have "sorted_wrt (\<lambda>a b. js_le (totalPrice a) (totalPrice b)) (js_sort by_totalPrice rows)"
      by (intro sorted_js_sort) (simp add: list_all_iff)
    then show "sorted_wrt (\<lambda>a b. js_le (totalPrice a) (totalPrice b)) (sort_and_limit rows ?lim)"
      unfolding n by (rule sorted_wrt_take)
  }
  {
    fix t
    have "prefix (filter (\<lambda>r. totalPrice r = t) (take n (js_sort by_totalPrice rows)))
            (filter (\<lambda>r. totalPrice r = t) (js_sort by_totalPrice rows))"
      by (rule prefix_filter_take)
    then show "prefix (filter (\<lambda>r. totalPrice r = t) (sort_and_limit rows ?lim))
            (filter (\<lambda>r. totalPrice r = t) rows)"
      by (simp add: n filter_js_sort)
  }
  from clamp_param_cases [of p 25 1 50]
  show "case ?lim of
       Fin l \<Rightarrow> rat_of_nat (length (sort_and_limit rows ?lim)) \<le> l \<and> l \<le> 50
     | _ \<Rightarrow> sort_and_limit rows ?lim = []"
  proof
    assume "?lim = NaN"
    then show ?thesis by (simp add: sort_and_limit_def slice0_def)
  next
    assume "\<exists>l. ?lim = Fin l \<and> l \<le> 50 \<and> ((1::rat) \<le> 50 \<longrightarrow> 1 \<le> l)"
    then obtain l where l: "?lim = Fin l" "l \<le> 50" "1 \<le> l" by auto
    then have "rat_of_nat (length (slice0 (js_sort by_totalPrice rows) (Fin l))) \<le> l"
      by (intro length_slice0_Fin) simp
    with l show ?thesis by (simp add: sort_and_limit_def)
  qed
qed

text \<open>The demo rows in reverse order, limited to two.\<close>

lemma sort_and_limit_demo:
  "list_all (\<lambda>r. totalPrice r \<noteq> NaN) (rev demo_rows)
 \<and> map totalPrice (rev demo_rows) = [Fin (13 / 4), Fin (25 / 2), Fin (3702 / 10000)]
 \<and> clamp_param (Some (Fin 2)) 25 1 50 = Fin 2
 \<and> map totalPrice (sort_and_limit (rev demo_rows) (clamp_param (Some (Fin 2)) 25 1 50))
      = [Fin (3702 / 10000), Fin (13 / 4)]
 \<and> sorted_wrt (\<lambda>a b. js_le (totalPrice a) (totalPrice b))
      (sort_and_limit (rev demo_rows) (clamp_param (Some (Fin 2)) 25 1 50))"
proof -
  have a: "list_all (\<lambda>r. totalPrice r \<noteq> NaN) (rev demo_rows)" by code_simp
  have b: "map totalPrice (rev demo_rows) = [Fin (13 / 4), Fin (25 / 2), Fin (3702 / 10000)]"
    by code_simp
  have c: "clamp_param (Some (Fin 2)) 25 1 50 = Fin 2" by code_simp
  have d: "map totalPrice (sort_and_limit (rev demo_rows) (clamp_param (Some (Fin 2)) 25 1 50))
      = [Fin (3702 / 10000), Fin (13 / 4)]" by code_simp
  from sort_and_limit_sorted [of "rev demo_rows" "Some (Fin 2)"] a
  have "sorted_wrt (\<lambda>a b. js_le (totalPrice a) (totalPrice b))
      (sort_and_limit (rev demo_rows) (clamp_param (Some (Fin 2)) 25 1 50))" by blast
  with a b c d show ?thesis by blast
qed


subsection \<open>C3: dedupe by chain keeps one row for each key\<close>

text \<open>
  Claim C3, as amended. With \<^verbatim>\<open>dedupe=chain\<close> the rows are grouped by the key
  \<^verbatim>\<open>chain || pharmacy || "unknown"\<close>. For the key of every row that goes in, exactly one
  row with that key comes out; it is one of the rows that went in, and when no total of
  the group is \<^verbatim>\<open>NaN\<close> its total is the least of the group. Among the rows that come
  out, the only one that can carry a given chain is the row kept for that chain's key; a
  row with neither chain nor pharmacy has the key \<^verbatim>\<open>"unknown"\<close>.
\<close>

theorem dedupe_chain_one_per_key:
  assumes "r \<in> set rows"
  shows "\<exists>r0. r0 \<in> set rows \<and> keyFn ''chain'' r0 = keyFn ''chain'' r
     \<and> filter (\<lambda>x. keyFn ''chain'' x = keyFn ''chain'' r) (dedupe_rows (keyFn ''chain'') rows) = [r0]
     \<and> (list_all (\<lambda>x. totalPrice x \<noteq> NaN) (filter (\<lambda>x. keyFn ''chain'' x = keyFn ''chain'' r) rows)
          \<longrightarrow> list_all (\<lambda>x. js_le (totalPrice r0) (totalPrice x))
                (filter (\<lambda>x. keyFn ''chain'' x = keyFn ''chain'' r) rows))
     \<and> (truthy (chain_field r)
          \<longrightarrow> filter (\<lambda>x. chain_field x = chain_field r) (dedupe_rows (keyFn ''chain'') rows)
                = (if chain_field r0 = chain_field r then [r0] else []))
     \<and> (\<not> truthy (chain_field r) \<and> \<not> truthy (pharmacy r) \<longrightarrow> keyFn ''chain'' r = ''unknown'')"
proof -
  let ?kf = "keyFn ''chain''"
  let ?k = "?kf r"
  let ?g = "filter (\<lambda>x. ?kf x = ?k) rows"
  let ?out = "dedupe_rows ?kf rows"
  have g: "?g \<noteq> []" using assms by (auto simp: filter_empty_conv)
  then obtain r0 where r0: "foldl keep None ?g = Some r0" "r0 \<in> set ?g"
    using keep_None_some by blast
  have one: "filter (\<lambda>x. ?kf x = ?k) ?out = [r0]"
    by (simp add: dedupe_rows_key r0(1))
  have mn: "list_all (\<lambda>x. js_le (totalPrice r0) (totalPrice x)) ?g"
    if "list_all (\<lambda>x. totalPrice x \<noteq> NaN) ?g"
  proof -
    from that have "\<forall>x\<in>set ?g. totalPrice x \<noteq> NaN" by (simp add: list_all_iff)
    from keep_None_min [OF g this] r0(1) show ?thesis by (auto simp: list_all_iff)
  qed
  have ch: "filter (\<lambda>x. chain_field x = chain_field r) ?out
              = (if chain_field r0 = chain_field r then [r0] else [])"
    if t: "truthy (chain_field r)"
  proof -
    have "filter (\<lambda>x. chain_field x = chain_field r) ?out
            = filter (\<lambda>x. chain_field x = chain_field r) (filter (\<lambda>x. ?kf x = ?k) ?out)"
      using t by (intro filter_through) (simp add: keyFn_chain_truthy)
    then show ?thesis by (simp add: one)
  qed
  have "r0 \<in> set rows" "?kf r0 = ?k" using r0(2) by auto
  with one mn ch keyFn_chain_unknown [of r] show ?thesis by blast
qed

text \<open>The key \<^verbatim>\<open>"unknown"\<close> of the demo rows: the NADAC row is kept.\<close>

theorem dedupe_chain_one_per_key_witness:
  "demo_rows ! 1 \<in> set demo_rows
 \<and> map chain_field demo_rows = [None, Some ''unknown'', Some ''costco'']
 \<and> map (keyFn ''chain'') demo_rows = [''unknown'', ''unknown'', ''costco'']
 \<and> (\<exists>r0. r0 \<in> set demo_rows \<and> keyFn ''chain'' r0 = ''unknown''
       \<and> filter (\<lambda>x. keyFn ''chain'' x = ''unknown'') (dedupe_rows (keyFn ''chain'') demo_rows) = [r0]
       \<and> list_all (\<lambda>x. js_le (totalPrice r0) (totalPrice x))
           (filter (\<lambda>x. keyFn ''chain'' x = ''unknown'') demo_rows))"
proof -
  have a: "demo_rows ! 1 \<in> set demo_rows" by code_simp
  have b: "map chain_field demo_rows = [None, Some ''unknown'', Some ''costco'']" by code_simp
  have c: "map (keyFn ''chain'') demo_rows = [''unknown'', ''unknown'', ''costco'']" by code_simp
  have k: "keyFn ''chain'' (demo_rows ! 1) = ''unknown''" by code_simp
  have n: "list_all (\<lambda>x. totalPrice x \<noteq> NaN)
             (filter (\<lambda>x. keyFn ''chain'' x = ''unknown'') demo_rows)" by code_simp
  from dedupe_chain_one_per_key [OF a] n
  have "\<exists>r0. r0 \<in> set demo_rows \<and> keyFn ''chain'' r0 = ''unknown''
       \<and> filter (\<lambda>x. keyFn ''chain'' x = ''unknown'') (dedupe_rows (keyFn ''chain'') demo_rows) = [r0]
       \<and> list_all (\<lambda>x. js_le (totalPrice r0) (totalPrice x))
           (filter (\<lambda>x. keyFn ''chain'' x = ''unknown'') demo_rows)"
    unfolding k by blast
  with a b c show ?thesis by blast
qed

text \<open>
  The claim as stated fails where a row without a chain shares the key of a chain: the
  Florida row of the pharmacy \<^verbatim>\<open>Unknown\<close> has the chain \<^verbatim>\<open>"unknown"\<close>, the NADAC row has
  neither chain nor pharmacy, both are filed under \<^verbatim>\<open>"unknown"\<close>, and the cheaper NADAC
  row is kept: no row of the chain \<^verbatim>\<open>"unknown"\<close> comes out.
\<close>

theorem dedupe_chain_counterexample:
  "map chain_field demo_rows = [None, Some ''unknown'', Some ''costco'']
 \<and> map chain_field (dedupe_rows (keyFn ''chain'') demo_rows) = [None, Some ''costco'']
 \<and> filter (\<lambda>x. chain_field x = Some ''unknown'') (dedupe_rows (keyFn ''chain'') demo_rows) = []"
  by code_simp

subsection \<open>C10: the earliest of the cheapest rows is kept\<close>

text \<open>
  Claim C10. In dedupe mode (either key function), when \<open>t\<close> is the least total price
  among the rows of a key and \<open>r0\<close> is the first row of that key with total \<open>t\<close>, the row
  kept for the key is \<open>r0\<close>: a later row replaces an earlier one only when its total is
  strictly less.
\<close>

theorem dedupe_keeps_earliest_cheapest:
  assumes "List.find (\<lambda>r. keyFn dedupe r = k \<and> totalPrice r = t) rows = Some r0"
    and "list_all (\<lambda>r. js_le t (totalPrice r)) (filter (\<lambda>r. keyFn dedupe r = k) rows)"
  shows "filter (\<lambda>r. keyFn dedupe r = k) (dedupe_rows (keyFn dedupe) rows) = [r0]"
proof -
  let ?g = "filter (\<lambda>r. keyFn dedupe r = k) rows"
  have "List.find (\<lambda>r. totalPrice r = t) ?g = Some r0"
    using assms(1) by (simp add: find_filter)
  moreover have "\<forall>r\<in>set ?g. js_le t (totalPrice r)"
    using assms(2) by (simp add: list_all_iff)
  ultimately have "foldl keep None ?g = Some r0"
    by (intro keep_None_first_min [where t = t])
  then show ?thesis by (simp add: dedupe_rows_key)
qed

text \<open>Two NADAC rows of one key and one total: the first is kept.\<close>

theorem dedupe_keeps_earliest_cheapest_witness:
  "map totalPrice demo_tie_rows = [Fin (3702 / 10000), Fin (3702 / 10000)]
 \<and> map (keyFn ''chain'') demo_tie_rows = [''unknown'', ''unknown'']
 \<and> map ndc demo_tie_rows = [Some ''00093104801'', Some ''00093104810'']
 \<and> map ndc (filter (\<lambda>r. keyFn ''chain'' r = ''unknown'')
               (dedupe_rows (keyFn ''chain'') demo_tie_rows)) = [Some ''00093104801'']"
proof -
  have a: "map totalPrice demo_tie_rows = [Fin (3702 / 10000), Fin (3702 / 10000)]" by code_simp
  have b: "map (keyFn ''chain'') demo_tie_rows = [''unknown'', ''unknown'']" by code_simp
  have c: "map ndc demo_tie_rows = [Some ''00093104801'', Some ''00093104810'']" by code_simp
  have f: "List.find (\<lambda>r. keyFn ''chain'' r = ''unknown'' \<and> totalPrice r = Fin (3702 / 10000))
             demo_tie_rows = Some (demo_tie_rows ! 0)" by code_simp
  have m: "list_all (\<lambda>r. js_le (Fin (3702 / 10000)) (totalPrice r))
             (filter (\<lambda>r. keyFn ''chain'' r = ''unknown'') demo_tie_rows)" by code_simp
  have n: "ndc (demo_tie_rows ! 0) = Some ''00093104801''" by code_simp
  from dedupe_keeps_earliest_cheapest [OF f m] n
  have "map ndc (filter (\<lambda>r. keyFn ''chain'' r = ''unknown'')
               (dedupe_rows (keyFn ''chain'') demo_tie_rows)) = [Some ''00093104801'']"
    by simp
  with a b c show ?thesis by blast
qed

subsection \<open>C7: quantity and rounding of the rows\<close>


subsection \<open>C9: the query that reaches the providers when resolution fails\<close>




subsection \<open>C8: GoodRx without a credential, and throttled\<close>

text \<open>
  The provider and its stage on their own. Without an API key \<^verbatim>\<open>fetchGoodRxPrices\<close>
  returns no rows and the base URL at once: no error, no upstream request, the cache
  untouched; the handler's GoodRx stage then only notes the attempt. When the provider's
  own throttle refuses the call, the stage only records the caveat: no rows, no upstream
  request, no exception.
\<close>

lemma goodrx_degrades_silently:
  "(\<not> truthy (GOODRX_API_KEY cfg) \<longrightarrow>
      fetchGoodRxPrices w cfg c inp = (Inr ([], GoodRxBase), c, []))
 \<and> (incG \<and> \<not> truthy (GOODRX_API_KEY cfg)
      \<and> allowed (fst (rateLimit (h_rl s) (now_grl w) (key @ ''|goodrx'') (GOODRX_RATE_MAX cfg)
                        (RATE_WINDOW_MS cfg))) \<longrightarrow>
      goodrx_stage w cfg incG key d q z limit s =
        s\<lparr>h_tr := push_attempted ''GoodRx'' (h_tr s),
          h_rl := snd (rateLimit (h_rl s) (now_grl w) (key @ ''|goodrx'') (GOODRX_RATE_MAX cfg)
                         (RATE_WINDOW_MS cfg))\<rparr>)
 \<and> (incG
      \<and> \<not> allowed (fst (rateLimit (h_rl s) (now_grl w) (key @ ''|goodrx'') (GOODRX_RATE_MAX cfg)
                          (RATE_WINDOW_MS cfg))) \<longrightarrow>
      goodrx_stage w cfg incG key d q z limit s =
        s\<lparr>h_tr := push_caveat
                    ''GoodRx calls throttled for this client to protect upstream limits.'' (h_tr s)\<rparr>)"
proof (intro conjI impI)
  assume "\<not> truthy (GOODRX_API_KEY cfg)"
  then show "fetchGoodRxPrices w cfg c inp = (Inr ([], GoodRxBase), c, [])"
    by (simp add: fetchGoodRxPrices_def)
next
  let ?r = "rateLimit (h_rl s) (now_grl w) (key @ ''|goodrx'') (GOODRX_RATE_MAX cfg) (RATE_WINDOW_MS cfg)"
  assume a: "incG \<and> \<not> truthy (GOODRX_API_KEY cfg) \<and> allowed (fst ?r)"
  obtain x1 x2 where r: "?r = (x1, x2)" by (cases ?r)
  with a have "allowed x1" by simp
  with a show "goodrx_stage w cfg incG key d q z limit s =
        s\<lparr>h_tr := push_attempted ''GoodRx'' (h_tr s), h_rl := snd ?r\<rparr>"
    by (simp add: goodrx_stage_def fetchGoodRxPrices_def r)
next
  let ?r = "rateLimit (h_rl s) (now_grl w) (key @ ''|goodrx'') (GOODRX_RATE_MAX cfg) (RATE_WINDOW_MS cfg)"
  assume a: "incG \<and> \<not> allowed (fst ?r)"
  then have "\<not> allowed (fst ?r)" by simp
  from rateLimit_refused [OF this]
  have r: "?r = (\<lparr>allowed = False, remaining = 0,
                   resetAtOut = resetAt (the (h_rl s (key @ ''|goodrx'')))\<rparr>, h_rl s)" .
  from a show "goodrx_stage w cfg incG key d q z limit s =
        s\<lparr>h_tr := push_caveat
                    ''GoodRx calls throttled for this client to protect upstream limits.'' (h_tr s)\<rparr>"
    by (simp add: goodrx_stage_def r)
qed

text \<open>The stage with no key configured, on a fresh throttle and on an exhausted one.\<close>

lemma goodrx_degrades_silently_demo:
  "\<not> truthy (GOODRX_API_KEY demo_config)
 \<and> fetchGoodRxPrices demo_world demo_config Map.empty
      \<lparr>in_drug = ''metformin'', in_qty = Fin 60, in_zip = None, in_limit = Fin 25\<rparr>
      = (Inr ([], GoodRxBase), Map.empty, [])
 \<and> attempted (h_tr (goodrx_stage demo_world demo_config True ''ip:anon'' ''metformin'' (Fin 60) []
                       (Fin 25) demo_state)) = [''GoodRx'']
 \<and> h_rows (goodrx_stage demo_world demo_config True ''ip:anon'' ''metformin'' (Fin 60) []
              (Fin 25) demo_state) = []
 \<and> caveats (h_tr (goodrx_stage demo_world demo_config True ''ip:anon'' ''metformin'' (Fin 60) []
                     (Fin 25)
                     (demo_state\<lparr>h_rl := goodrx_spent\<rparr>)))
      = [''GoodRx calls throttled for this client to protect upstream limits.'']
 \<and> h_calls (goodrx_stage demo_world demo_config True ''ip:anon'' ''metformin'' (Fin 60) []
               (Fin 25)
               (demo_state\<lparr>h_rl := goodrx_spent\<rparr>)) = []"
proof -
  let ?s = "demo_state\<lparr>h_rl := goodrx_spent\<rparr>"
  have k: "\<not> truthy (GOODRX_API_KEY demo_config)" by (simp add: demo_config_def)
  have al: "allowed (fst (rateLimit (h_rl demo_state) (now_grl demo_world) (''ip:anon'' @ ''|goodrx'')
                        (GOODRX_RATE_MAX demo_config) (RATE_WINDOW_MS demo_config)))"
    by (simp add: demo_state_def demo_world_def demo_config_def rateLimit_def goodrx_spent_def)
  have th: "\<not> allowed (fst (rateLimit (h_rl ?s) (now_grl demo_world) (''ip:anon'' @ ''|goodrx'')
                        (GOODRX_RATE_MAX demo_config) (RATE_WINDOW_MS demo_config)))"
    by (simp add: demo_state_def demo_world_def demo_config_def rateLimit_def goodrx_spent_def)
  note t = goodrx_degrades_silently [where cfg = demo_config and w = demo_world and incG = True
      and key = "''ip:anon''" and d = "''metformin''" and q = "Fin 60" and z = "[]" and limit = "Fin 25"]
  from t [where s = demo_state and c = Map.empty] k al
  have 1: "fetchGoodRxPrices demo_world demo_config Map.empty
      \<lparr>in_drug = ''metformin'', in_qty = Fin 60, in_zip = None, in_limit = Fin 25\<rparr>
      = (Inr ([], GoodRxBase), Map.empty, [])"
    and 2: "goodrx_stage demo_world demo_config True ''ip:anon'' ''metformin'' (Fin 60) [] (Fin 25) demo_state
      = demo_state\<lparr>h_tr := push_attempted ''GoodRx'' (h_tr demo_state),
          h_rl := snd (rateLimit (h_rl demo_state) (now_grl demo_world) (''ip:anon'' @ ''|goodrx'')
                         (GOODRX_RATE_MAX demo_config) (RATE_WINDOW_MS demo_config))\<rparr>"
    by blast+
  from t [where s = ?s] th
  have 3: "goodrx_stage demo_world demo_config True ''ip:anon'' ''metformin'' (Fin 60) [] (Fin 25) ?s
      = ?s\<lparr>h_tr := push_caveat
                    ''GoodRx calls throttled for this client to protect upstream limits.'' (h_tr ?s)\<rparr>"
    by blast
  show ?thesis
    unfolding 1 2 3 using k by (simp add: demo_state_def push_attempted_def push_caveat_def)
qed

text \<open>
  Claim C8 does not hold of the code. For \<^verbatim>\<open>?drug=Metformin&qty=60&includeGoodRx=true\<close>
  with no key configured the provider returns no rows and no error, without an upstream
  request, and for a client whose GoodRx calls are used up the stage records its caveat
  and calls nothing; but in both cases the request fails all the same, because the
  handler goes on to line 490 and throws there.
\<close>

theorem GET_throws_with_goodrx_degraded:
  "\<not> truthy (GOODRX_API_KEY demo_config)
 \<and> fst (fetchGoodRxPrices demo_world demo_config Map.empty
           \<lparr>in_drug = ''metformin'', in_qty = Fin 60, in_zip = None, in_limit = Fin 25\<rparr>)
      = Inr ([], GoodRxBase)
 \<and> snd (snd (fetchGoodRxPrices demo_world demo_config Map.empty
                \<lparr>in_drug = ''metformin'', in_qty = Fin 60, in_zip = None, in_limit = Fin 25\<rparr>))
      = []
 \<and> fst (GET demo_world demo_config goodrx_request Map.empty Map.empty)
      = Inl (ReferenceError ''nadacRows'')
 \<and> \<not> allowed (fst (rateLimit goodrx_spent (now_grl demo_world) ''ip:anon|goodrx''
                       (GOODRX_RATE_MAX demo_config) (RATE_WINDOW_MS demo_config)))
 \<and> caveats (h_tr (goodrx_stage demo_world demo_config True ''ip:anon'' ''metformin'' (Fin 60) []
                     (Fin 25) (demo_state\<lparr>h_rl := goodrx_spent\<rparr>)))
      = [''GoodRx calls throttled for this client to protect upstream limits.'']
 \<and> fst (GET demo_world demo_config goodrx_request goodrx_spent Map.empty)
      = Inl (ReferenceError ''nadacRows'')"
  by code_simp

subsection \<open>C6: rejections come before any provider\<close>

text \<open>
  Claim C6, as amended. Both parameters are trimmed before they are looked at (lines
  372-373). A request whose drug parameter is missing or empty once trimmed gets status
  400 with a message; so does one whose zip, once trimmed, is not empty and not five
  digits; in both cases no provider is called and neither the rate-limit map nor the
  cache changes. A request that passes these two checks while the client's window is
  exhausted gets status 429 with remaining 0 and the reset time of the window, again
  with no provider called.
\<close>

theorem GET_rejects_before_providers:
  "(trim (js w) (or_str (q_drug req) []) = [] \<longrightarrow>
      GET w cfg req rl c =
        (Inr (error_response 400
                ''Missing required query param: drug (e.g., ?drug=atorvastatin)''), rl, c, []))
 \<and> (trim (js w) (or_str (q_zip req) []) \<noteq> [] \<and> \<not> isFiveDigitZip (trim (js w) (or_str (q_zip req) [])) \<longrightarrow>
      GET w cfg req rl c =
        (Inr (error_response 400
                (if trim (js w) (or_str (q_drug req) []) = []
                 then ''Missing required query param: drug (e.g., ?drug=atorvastatin)''
                 else ''Invalid zip. Use 5 digits, e.g., 85001'')), rl, c, []))
 \<and> (trim (js w) (or_str (q_drug req) []) \<noteq> []
      \<and> (trim (js w) (or_str (q_zip req) []) = [] \<or> isFiveDigitZip (trim (js w) (or_str (q_zip req) [])))
      \<and> \<not> allowed (fst (rateLimit rl (now_rl w) (getClientKey (js w) req) (RATE_MAX cfg)
                          (RATE_WINDOW_MS cfg))) \<longrightarrow>
      GET w cfg req rl c =
        (Inr ((error_response 429 ''Rate limit exceeded. Please try again shortly.'')
              \<lparr>hdr_privacy := Some (toLowerCase (js w) (or_str (q_privacy req) ''on'')),
               hdr_limit := Some (RATE_MAX cfg), hdr_remaining := Some 0,
               hdr_reset := Some (resetAt (the (rl (getClientKey (js w) req))))\<rparr>), rl, c, []))"
proof (intro conjI impI)
  assume "trim (js w) (or_str (q_drug req) []) = []"
  then show "GET w cfg req rl c =
        (Inr (error_response 400
                ''Missing required query param: drug (e.g., ?drug=atorvastatin)''), rl, c, [])"
    by (simp add: GET_def Let_def)
next
  assume "trim (js w) (or_str (q_zip req) []) \<noteq> [] \<and> \<not> isFiveDigitZip (trim (js w) (or_str (q_zip req) []))"
  then show "GET w cfg req rl c =
        (Inr (error_response 400
                (if trim (js w) (or_str (q_drug req) []) = []
                 then ''Missing required query param: drug (e.g., ?drug=atorvastatin)''
                 else ''Invalid zip. Use 5 digits, e.g., 85001'')), rl, c, [])"
    by (simp add: GET_def Let_def)
next
  let ?r = "rateLimit rl (now_rl w) (getClientKey (js w) req) (RATE_MAX cfg) (RATE_WINDOW_MS cfg)"
  assume a: "trim (js w) (or_str (q_drug req) []) \<noteq> []
      \<and> (trim (js w) (or_str (q_zip req) []) = [] \<or> isFiveDigitZip (trim (js w) (or_str (q_zip req) [])))
      \<and> \<not> allowed (fst ?r)"
  then have r: "?r = (\<lparr>allowed = False, remaining = 0,
                       resetAtOut = resetAt (the (rl (getClientKey (js w) req)))\<rparr>, rl)"
    by (intro rateLimit_refused) simp
  show "GET w cfg req rl c =
        (Inr ((error_response 429 ''Rate limit exceeded. Please try again shortly.'')
              \<lparr>hdr_privacy := Some (toLowerCase (js w) (or_str (q_privacy req) ''on'')),
               hdr_limit := Some (RATE_MAX cfg), hdr_remaining := Some 0,
               hdr_reset := Some (resetAt (the (rl (getClientKey (js w) req))))\<rparr>), rl, c, [])"
    using a by (auto simp: GET_def Let_def r)
qed

text \<open>A blank drug, a malformed zip, and a client at its limit of 30.\<close>

theorem GET_rejects_before_providers_witness:
  "GET demo_world demo_config (demo_request\<lparr>q_drug := Some ''  ''\<rparr>) Map.empty Map.empty
     = (Inr (error_response 400
               ''Missing required query param: drug (e.g., ?drug=atorvastatin)''),
        Map.empty, Map.empty, [])
 \<and> GET demo_world demo_config (demo_request\<lparr>q_zip := Some ''8500a''\<rparr>) Map.empty Map.empty
     = (Inr (error_response 400 ''Invalid zip. Use 5 digits, e.g., 85001''),
        Map.empty, Map.empty, [])
 \<and> GET demo_world demo_config demo_request [''ip:anon'' \<mapsto> \<lparr>count = 30, resetAt = 61000\<rparr>]
       Map.empty
     = (Inr ((error_response 429 ''Rate limit exceeded. Please try again shortly.'')
             \<lparr>hdr_privacy := Some ''on'', hdr_limit := Some 30, hdr_remaining := Some 0,
              hdr_reset := Some 61000\<rparr>),
        [''ip:anon'' \<mapsto> \<lparr>count = 30, resetAt = 61000\<rparr>], Map.empty, [])"
proof -
  let ?rl = "[''ip:anon'' \<mapsto> \<lparr>count = 30, resetAt = 61000\<rparr>] :: rl_map"
  have d1: "trim (js demo_world) (or_str (q_drug (demo_request\<lparr>q_drug := Some ''  ''\<rparr>)) []) = []" by code_simp
  have d2: "trim (js demo_world) (or_str (q_drug (demo_request\<lparr>q_zip := Some ''8500a''\<rparr>)) []) \<noteq> []" by code_simp
  have z2: "trim (js demo_world) (or_str (q_zip (demo_request\<lparr>q_zip := Some ''8500a''\<rparr>)) []) \<noteq> []
          \<and> \<not> isFiveDigitZip (trim (js demo_world) (or_str (q_zip (demo_request\<lparr>q_zip := Some ''8500a''\<rparr>)) []))"
    by code_simp
  have d3: "trim (js demo_world) (or_str (q_drug demo_request) []) \<noteq> []" by code_simp
  have z3: "trim (js demo_world) (or_str (q_zip demo_request) []) = []" by code_simp
  have k: "getClientKey (js demo_world) demo_request = ''ip:anon''" by code_simp
  have p: "toLowerCase (js demo_world) (or_str (q_privacy demo_request) ''on'') = ''on''" by code_simp
  have r3: "\<not> allowed (fst (rateLimit ?rl (now_rl demo_world) (getClientKey (js demo_world) demo_request)
                              (RATE_MAX demo_config) (RATE_WINDOW_MS demo_config)))"
    unfolding k by (simp add: rateLimit_def demo_world_def demo_config_def)
  have c: "RATE_MAX demo_config = 30" by (simp add: demo_config_def)
  from GET_rejects_before_providers
         [where req = "demo_request\<lparr>q_drug := Some ''  ''\<rparr>" and w = demo_world
            and cfg = demo_config and rl = Map.empty and c = Map.empty] d1
  have 1: "GET demo_world demo_config (demo_request\<lparr>q_drug := Some ''  ''\<rparr>) Map.empty Map.empty
     = (Inr (error_response 400
               ''Missing required query param: drug (e.g., ?drug=atorvastatin)''),
        Map.empty, Map.empty, [])" by blast
  from GET_rejects_before_providers
         [where req = "demo_request\<lparr>q_zip := Some ''8500a''\<rparr>" and w = demo_world
            and cfg = demo_config and rl = Map.empty and c = Map.empty] d2 z2
  have 2: "GET demo_world demo_config (demo_request\<lparr>q_zip := Some ''8500a''\<rparr>) Map.empty Map.empty
     = (Inr (error_response 400 ''Invalid zip. Use 5 digits, e.g., 85001''),
        Map.empty, Map.empty, [])" by simp
  from GET_rejects_before_providers
         [where req = demo_request and w = demo_world and cfg = demo_config and rl = ?rl
            and c = Map.empty] d3 z3 r3
  have 3: "GET demo_world demo_config demo_request ?rl Map.empty
     = (Inr ((error_response 429 ''Rate limit exceeded. Please try again shortly.'')
             \<lparr>hdr_privacy := Some ''on'', hdr_limit := Some 30, hdr_remaining := Some 0,
              hdr_reset := Some 61000\<rparr>), ?rl, Map.empty, [])"
    by (simp add: k p c)
  from 1 2 3 show ?thesis by simp
qed

text \<open>
  The claim as stated fails on a zip that is not empty and not five digits as it is
  given, but is once trimmed: \<^verbatim>\<open>?drug=Metformin&qty=60&zip=%2085001\<close> is not answered
  with status 400, the resolver and NADAC are called, and the call is counted against
  the client. And a client at its limit who sends no drug is answered with status 400,
  not with the throttled outcome.
\<close>

theorem padded_zip_not_rejected:
  "q_zip padded_zip_request = Some '' 85001''
 \<and> \<not> isFiveDigitZip '' 85001''
 \<and> fst (GET demo_world demo_config padded_zip_request Map.empty Map.empty)
      = Inl (ReferenceError ''nadacRows'')
 \<and> snd (snd (snd (GET demo_world demo_config padded_zip_request Map.empty Map.empty)))
      = [RxFindUrl ''metformin'' 1, RxFindUrl ''metformin'' 9, NadacUrl ''metformin'' (Fin 25)]
 \<and> fst (snd (GET demo_world demo_config padded_zip_request Map.empty Map.empty)) ''ip:anon''
      = Some \<lparr>count = 1, resetAt = 61000\<rparr>
 \<and> status (projr (fst (GET demo_world demo_config (demo_request\<lparr>q_drug := None\<rparr>)
                          [''ip:anon'' \<mapsto> \<lparr>count = 30, resetAt = 61000\<rparr>] Map.empty)))
      = 400"
  by code_simp

subsection \<open>C1: the baseline statistic\<close>

text \<open>
  Claim C1 does not hold of the code. Every request that passes validation and the rate
  limit ends in a \<^verbatim>\<open>ReferenceError\<close>: line 490 reads \<^verbatim>\<open>nadacRows\<close>, which is declared
  inside the \<^verbatim>\<open>try\<close> block of lines 477-486 and is out of scope there. No baseline is
  attached and the request fails.
\<close>

theorem GET_throws_at_baseline:
  assumes "trim (js w) (or_str (q_drug req) []) \<noteq> []"
    and "trim (js w) (or_str (q_zip req) []) = [] \<or> isFiveDigitZip (trim (js w) (or_str (q_zip req) []))"
    and "allowed (fst (rateLimit rl (now_rl w) (getClientKey (js w) req) (RATE_MAX cfg) (RATE_WINDOW_MS cfg)))"
  shows "fst (GET w cfg req rl c) = Inl (ReferenceError ''nadacRows'')"
proof -
  have "resolve_identifier [(''rows'', rs), (''MOCK'', ms)] ''nadacRows'' = Inl (ReferenceError ''nadacRows'')"
    for rs ms :: "PriceRow list"
    by (simp add: resolve_identifier_def)
  with assms show ?thesis
    by (auto simp: GET_def Let_def split: prod.splits)
qed

text \<open>The request \<^verbatim>\<open>?drug=Metformin&qty=60\<close> from a client with no record.\<close>

theorem GET_throws_at_baseline_witness:
  "trim (js demo_world) (or_str (q_drug demo_request) []) = ''Metformin''
 \<and> trim (js demo_world) (or_str (q_zip demo_request) []) = []
 \<and> allowed (fst (rateLimit Map.empty (now_rl demo_world) (getClientKey (js demo_world) demo_request)
                   (RATE_MAX demo_config) (RATE_WINDOW_MS demo_config)))
 \<and> fst (GET demo_world demo_config demo_request Map.empty Map.empty)
     = Inl (ReferenceError ''nadacRows'')"
proof -
  have d: "trim (js demo_world) (or_str (q_drug demo_request) []) = ''Metformin''" by code_simp
  have z: "trim (js demo_world) (or_str (q_zip demo_request) []) = []" by code_simp
  have a: "allowed (fst (rateLimit Map.empty (now_rl demo_world) (getClientKey (js demo_world) demo_request)
                   (RATE_MAX demo_config) (RATE_WINDOW_MS demo_config)))"
    by (simp add: rateLimit_def)
  from d have d': "trim (js demo_world) (or_str (q_drug demo_request) []) \<noteq> []" by simp
  from z have z': "trim (js demo_world) (or_str (q_zip demo_request) []) = []
     \<or> isFiveDigitZip (trim (js demo_world) (or_str (q_zip demo_request) []))" by simp
  from GET_throws_at_baseline [OF d' z' a] d z a show ?thesis by simp
qed

subsection \<open>The baseline expression on its own\<close>

lemma Math_min_cases:
  "a \<noteq> NaN \<Longrightarrow> b \<noteq> NaN \<Longrightarrow>
   (Math_min a b = a \<or> Math_min a b = b) \<and> js_le (Math_min a b) a \<and> js_le (Math_min a b) b"
  by (cases a; cases b) (auto simp: Math_min_def)

lemma foldl_Math_min:
  "a \<noteq> NaN \<Longrightarrow> \<forall>u\<in>set xs. u \<noteq> NaN \<Longrightarrow>
   foldl Math_min a xs \<in> insert a (set xs) \<and> js_le (foldl Math_min a xs) a
   \<and> (\<forall>u\<in>set xs. js_le (foldl Math_min a xs) u)"
proof (induction xs arbitrary: a)
  case Nil
  then show ?case by (simp add: js_le_refl)
next
  case (Cons x xs)
  let ?m = "Math_min a x"
  from Cons.prems have x: "x \<noteq> NaN" by simp
  from Math_min_cases [OF Cons.prems(1) x]
  have m: "?m = a \<or> ?m = x" "js_le ?m a" "js_le ?m x" by auto
  then have mn: "?m \<noteq> NaN" using Cons.prems(1) x by auto
  from Cons.IH [OF mn] Cons.prems(2)
  have ih: "foldl Math_min ?m xs \<in> insert ?m (set xs)" "js_le (foldl Math_min ?m xs) ?m"
    "\<forall>u\<in>set xs. js_le (foldl Math_min ?m xs) u" by auto
  from ih(2) m(2,3) have "js_le (foldl Math_min ?m xs) a" "js_le (foldl Math_min ?m xs) x"
    by (auto intro: js_le_trans)
  with ih m(1) show ?case by auto
qed

lemma isFinite_not_NaN: "isFinite u \<Longrightarrow> u \<noteq> NaN"
  by (cases u) auto

text \<open>
  The expression of lines 490-498 itself, applied to the rows that the NADAC provider
  returned, computes what the claim describes: a baseline is attached; it is \<^verbatim>\<open>null\<close> when
  no unit price is finite, and else the least of the finite unit prices.
\<close>

lemma attach_baseline_unitMin:
  "case nadacBaseline (attach_baseline nadacRows tr) of
     None \<Rightarrow> False
   | Some None \<Rightarrow> list_all (\<lambda>r. \<not> isFinite (unitPrice r)) nadacRows
   | Some (Some m) \<Rightarrow>
       isFinite m \<and> m \<in> unitPrice ` set nadacRows
     \<and> list_all (\<lambda>r. \<not> isFinite (unitPrice r) \<or> js_le m (unitPrice r)) nadacRows"
proof (cases "filter isFinite (map unitPrice nadacRows) = []")
  case True
  then have none: "list_all (\<lambda>r. \<not> isFinite (unitPrice r)) nadacRows"
    by (auto simp: filter_empty_conv list_all_iff)
  show ?thesis using True none
    by (simp add: attach_baseline_def nadacUnitMin_def)
next
  case False
  let ?xs = "filter isFinite (map unitPrice nadacRows)"
  let ?m = "foldl Math_min PosInf ?xs"
  have nn: "\<forall>u\<in>set ?xs. u \<noteq> NaN" by (auto dest: isFinite_not_NaN)
  from foldl_Math_min [OF _ nn, of PosInf]
  have m: "?m \<in> insert PosInf (set ?xs)" "\<forall>u\<in>set ?xs. js_le ?m u" by auto
  from False obtain u where u: "u \<in> set ?xs" by (cases ?xs) auto
  then have "isFinite u" "js_le ?m u" using m(2) by auto
  then have "?m \<noteq> PosInf" by (cases u) auto
  with m(1) have mem: "?m \<in> set ?xs" by auto
  then have fin: "isFinite ?m" and img: "?m \<in> unitPrice ` set nadacRows" by auto
  have ne: "nadacRows \<noteq> []" using False by auto
  have "list_all (\<lambda>r. \<not> isFinite (unitPrice r) \<or> js_le ?m (unitPrice r)) nadacRows"
    using m(2) by (auto simp: list_all_iff)
  with fin img ne show ?thesis
    by (simp add: attach_baseline_def nadacUnitMin_def)
qed

end
